theory Spec2Isabelle
  imports Complex_Main
begin

section \<open>Shared vocabulary: time, JSON, HTTP responses, the process table, traces\<close>

text \<open>
  \<^verbatim>\<open>datetime.now()\<close> is a reading of the wall clock; a reading is an integer number of
  microseconds, and every handler receives its readings as arguments, one per call of
  \<^verbatim>\<open>datetime.now()\<close> in the source, in the order of the calls.
\<close>

type_synonym time = int

text \<open>
  JSON values. \<open>JIso t\<close> stands for the string \<^verbatim>\<open>t.isoformat()\<close> and \<open>JDelta d\<close> for
  \<^verbatim>\<open>str(d)\<close> of a timedelta of \<open>d\<close> microseconds: both are non-empty strings whose
  characters are not spelled out.
\<close>

datatype json =
    JNull
  | JBool bool
  | JNum int
  | JStr string
  | JIso time
  | JDelta int
  | JArr "json list"
  | JObj "(string \<times> json) list"

text \<open>Python truthiness of a decoded JSON value.\<close>

fun truthy :: "json \<Rightarrow> bool" where
  "truthy JNull = False"
| "truthy (JBool b) = b"
| "truthy (JNum n) = (n \<noteq> 0)"
| "truthy (JStr s) = (s \<noteq> [])"
| "truthy (JIso t) = True"
| "truthy (JDelta d) = True"
| "truthy (JArr xs) = (xs \<noteq> [])"
| "truthy (JObj kvs) = (kvs \<noteq> [])"

text \<open>\<^verbatim>\<open>x and y\<close> on Python values: the first operand when it is falsy, else the second.\<close>

definition py_and :: "json \<Rightarrow> json \<Rightarrow> json" where
  "py_and x y = (if truthy x then y else x)"

text \<open>\<^verbatim>\<open>data.get(key, default)\<close> on a decoded JSON object.\<close>

definition dict_get :: "(string \<times> json) list \<Rightarrow> string \<Rightarrow> json \<Rightarrow> json" where
  "dict_get kvs k d = (case map_of kvs k of None \<Rightarrow> d | Some v \<Rightarrow> v)"

datatype body = Text string | Json "(string \<times> json) list"

record response =
  status_code :: nat
  body :: body

text \<open>A view function that returns a string or \<^verbatim>\<open>jsonify(...)\<close> answers 200.\<close>

definition text_response :: "string \<Rightarrow> response" where
  "text_response s = \<lparr>status_code = 200, body = Text s\<rparr>"

definition jsonify :: "(string \<times> json) list \<Rightarrow> response" where
  "jsonify kvs = \<lparr>status_code = 200, body = Json kvs\<rparr>"

text \<open>The framework's answer for a path that no view function is registered for.\<close>

definition not_found :: response where
  "not_found = \<lparr>status_code = 404, body = Text ''Not Found''\<rparr>"

definition body_fields :: "response \<Rightarrow> string list" where
  "body_fields r = (case body r of Text s \<Rightarrow> [] | Json kvs \<Rightarrow> map fst kvs)"

definition body_field :: "response \<Rightarrow> string \<Rightarrow> json option" where
  "body_field r k = (case body r of Text s \<Rightarrow> None | Json kvs \<Rightarrow> map_of kvs k)"

text \<open>\<^verbatim>\<open>int(uptime.total_seconds())\<close>: whole seconds, truncated towards zero.\<close>

definition total_seconds_int :: "int \<Rightarrow> int" where
  "total_seconds_int d = (if 0 \<le> d then d div 1000000 else - ((- d) div 1000000))"

datatype route = Home | Health | KeepAlive | Ping | RestartBots

text \<open>
  The operating system's process table, without the supervisor's own process. A
  process id is an index into the table; \<^verbatim>\<open>Popen\<close> appends an entry. \<open>up\<close> is false once the
  process has exited.
\<close>

record proc =
  exe :: string
  args :: "string list"
  extra_env :: "(string \<times> string) list"
  up :: bool

type_synonym world = "proc list"

record host =
  os_name :: string
  sys_executable :: string

definition popen :: "world \<Rightarrow> string \<Rightarrow> string list \<Rightarrow> (string \<times> string) list \<Rightarrow> world \<times> nat" where
  "popen w e a env = (w @ [\<lparr>exe = e, args = a, extra_env = env, up = True\<rparr>], length w)"

text \<open>\<^verbatim>\<open>p.poll() is None\<close>: the process is still running.\<close>

definition poll_is_None :: "world \<Rightarrow> nat \<Rightarrow> bool" where
  "poll_is_None w p = (p < length w \<and> up (w ! p))"

definition proc_exit :: "world \<Rightarrow> nat \<Rightarrow> world" where
  "proc_exit w p = (if p < length w then w[p := (w ! p)\<lparr>up := False\<rparr>] else w)"

definition procs_exit :: "world \<Rightarrow> nat list \<Rightarrow> world" where
  "procs_exit w ps = foldl proc_exit w ps"

text \<open>
  \<^verbatim>\<open>pkill -f PATTERN\<close> ends every process whose full command line (the executable and the
  arguments, joined by spaces) has a part that matches the pattern, a regular expression.
  The two patterns of the source consist of ordinary characters and the dot, which stands
  for any character.
\<close>

fun matches_here :: "string \<Rightarrow> string \<Rightarrow> bool" where
  "matches_here [] s = True"
| "matches_here (p # ps) [] = False"
| "matches_here (p # ps) (c # cs) = ((p = CHR ''.'' \<or> p = c) \<and> matches_here ps cs)"

fun matches_anywhere :: "string \<Rightarrow> string \<Rightarrow> bool" where
  "matches_anywhere pat [] = matches_here pat []"
| "matches_anywhere pat (c # cs) = (matches_here pat (c # cs) \<or> matches_anywhere pat cs)"

definition command_line :: "proc \<Rightarrow> string" where
  "command_line p = exe p @ concat (map (\<lambda>a. CHR '' '' # a) (args p))"

definition pkill_matches :: "string \<Rightarrow> proc \<Rightarrow> bool" where
  "pkill_matches pat p = matches_anywhere pat (command_line p)"

definition pkill_f :: "string \<Rightarrow> world \<Rightarrow> world" where
  "pkill_f pat w = map (\<lambda>p. if pkill_matches pat p then p\<lparr>up := False\<rparr> else p) w"

text \<open>
  \<^verbatim>\<open>taskkill /F /IM IMAGE\<close> ends every process whose image, the file name at the end of the
  path of its executable, is the given one; upper and lower case are not told apart.
\<close>

fun lower :: "char \<Rightarrow> char" where
  "lower (Char b0 b1 b2 b3 b4 b5 b6 b7) =
     (if (65::nat) \<le> of_char (Char b0 b1 b2 b3 b4 b5 b6 b7) \<and>
         (of_char (Char b0 b1 b2 b3 b4 b5 b6 b7) :: nat) \<le> 90
      then Char b0 b1 b2 b3 b4 True b6 b7 else Char b0 b1 b2 b3 b4 b5 b6 b7)"

definition image_name :: "string \<Rightarrow> string" where
  "image_name path = rev (takeWhile (\<lambda>c. c \<noteq> CHR 0x5C \<and> c \<noteq> CHR ''/'') (rev path))"

definition taskkill_matches :: "string \<Rightarrow> proc \<Rightarrow> bool" where
  "taskkill_matches img p = (map lower (image_name (exe p)) = map lower img)"

definition taskkill_im :: "string \<Rightarrow> world \<Rightarrow> world" where
  "taskkill_im img w = map (\<lambda>p. if taskkill_matches img p then p\<lparr>up := False\<rparr> else p) w"

text \<open>
  The supervisor's own process is not in the table: it runs the interpreter
  \<^verbatim>\<open>sys.executable\<close> on the supervisor's script. A kill command that matches it ends the
  supervisor.
\<close>

definition supervisor :: "host \<Rightarrow> string \<Rightarrow> proc" where
  "supervisor h script = \<lparr>exe = sys_executable h, args = [script], extra_env = [], up = True\<rparr>"

text \<open>\<^verbatim>\<open>self.X_process and self.X_process.poll() is None\<close>: \<open>None\<close> when there is no handle.\<close>

definition proc_alive :: "world \<Rightarrow> nat option \<Rightarrow> json" where
  "proc_alive w h = (case h of None \<Rightarrow> JNull | Some p \<Rightarrow> JBool (poll_is_None w p))"

text \<open>\<^verbatim>\<open>p.terminate()\<close> behind \<^verbatim>\<open>if self.X_process:\<close>.\<close>

definition terminate :: "world \<Rightarrow> nat option \<Rightarrow> world" where
  "terminate w h = (case h of None \<Rightarrow> w | Some p \<Rightarrow> proc_exit w p)"

text \<open>
  What a launch does within the grace sleep: \<^verbatim>\<open>Popen\<close> raises, the child exits before the
  sleep is over, or the child is still running after it.
\<close>

datatype launch = PopenRaises | ExitsEarly | StaysUp

datatype worker = Teacher | Student

text \<open>
  The observable trace of the supervisor: \<open>Slept n\<close> is \<^verbatim>\<open>time.sleep(n)\<close>, \<open>Logged m\<close> a
  log line (its fixed text, without the emoji and the interpolated values; the banner
  lines of the \<^verbatim>\<open>start\<close> methods and the dumps of a dead child's output are left out),
  \<open>Restarting ws\<close> the entry into a restart operation for the workers \<open>ws\<close>,
  \<open>Launching w\<close> the begin of one launch attempt of worker \<open>w\<close> and \<open>Launch w ok\<close> its end,
  \<open>ok\<close> telling whether the worker was up after the grace sleep. \<open>Ended\<close> says that the
  supervisor's own process has been ended; nothing follows it.
\<close>

datatype event =
    Slept nat
  | Logged string
  | Restarting "worker list"
  | Launching worker
  | Launch worker bool
  | Ended

definition ended :: "event list \<Rightarrow> bool" where
  "ended tr = (Ended \<in> set tr)"

text \<open>The environment of one restart: whether each kill command raises, and both launches.\<close>

record restart_env =
  kill1_raises :: bool
  kill2_raises :: bool
  teacher_launch :: launch
  student_launch :: launch

text \<open>
  The environment of one pass of a monitor loop: the processes that have exited since
  the last pass, whether the liveness check raises, and the environment of the restart
  (used when the pass restarts).
\<close>

record iter_env =
  exited :: "nat list"
  check_raises :: bool
  renv :: restart_env


section \<open>keep_bot_alive_24x7.py: class BotKeepAlive24x7\<close>

record keeper =
  teacher_process :: "nat option"
  student_process :: "nat option"
  running :: bool
  restart_count :: int
  start_time :: time
  last_ping :: time
  ping_count :: int
  port :: int

text \<open>\<^verbatim>\<open>__init__\<close>: two clock readings and the port taken from the environment.\<close>

definition keeper_init :: "time \<Rightarrow> time \<Rightarrow> int \<Rightarrow> keeper" where
  "keeper_init now1 now2 p =
     \<lparr>teacher_process = None, student_process = None, running = True, restart_count = 0,
      start_time = now1, last_ping = now2, ping_count = 0, port = p\<rparr>"

definition home :: response where
  "home = text_response ([CHR 0xF0, CHR 0x9F, CHR 0xA4, CHR 0x96] @
     '' Telegram Quiz Bot is running 24/7! '' @ [CHR 0xF0, CHR 0x9F, CHR 0x8E, CHR 0x93])"

definition health :: "keeper \<Rightarrow> world \<Rightarrow> time \<Rightarrow> time \<Rightarrow> response" where
  "health s w now1 now2 =
     (let uptime = now1 - start_time s;
          teacher_alive = proc_alive w (teacher_process s);
          student_alive = proc_alive w (student_process s)
      in jsonify
        [(''status'', JStr (if truthy (py_and teacher_alive student_alive)
                            then ''healthy'' else ''partial'')),
         (''uptime_seconds'', JNum (total_seconds_int uptime)),
         (''uptime_formatted'', JDelta uptime),
         (''teacher_bot_running'', teacher_alive),
         (''student_bot_running'', student_alive),
         (''restart_count'', JNum (restart_count s)),
         (''last_ping'', JIso (last_ping s)),
         (''ping_count'', JNum (ping_count s)),
         (''timestamp'', JIso now2)])"

definition keep_alive :: "keeper \<Rightarrow> time \<Rightarrow> time \<Rightarrow> keeper \<times> response" where
  "keep_alive s now1 now2 =
     (let s1 = s\<lparr>last_ping := now1\<rparr>;
          s2 = s1\<lparr>ping_count := ping_count s1 + 1\<rparr>
      in (s2, jsonify
        [(''status'', JStr ''alive''),
         (''message'', JStr ''Bot is running 24/7''),
         (''ping_count'', JNum (ping_count s2)),
         (''timestamp'', JIso (last_ping s2)),
         (''uptime'', JDelta (now2 - start_time s2))]))"

definition ping :: response where
  "ping = text_response ''pong''"

definition kill_existing_bots :: "host \<Rightarrow> bool \<Rightarrow> bool \<Rightarrow> world \<Rightarrow> world \<times> event list" where
  "kill_existing_bots h raises1 raises2 w =
     (if os_name h = ''nt'' then
        (if raises1 then (w, [Logged ''Could not kill existing processes''])
         else if taskkill_matches ''python.exe'' (supervisor h ''keep_bot_alive_24x7.py'')
         then (taskkill_im ''python.exe'' w, [Ended])
         else (taskkill_im ''python.exe'' w, [Slept 2, Logged ''Cleared any existing bot processes'']))
      else
        (if raises1 then (w, [Logged ''Could not kill existing processes''])
         else if pkill_matches ''TelegramBot.py'' (supervisor h ''keep_bot_alive_24x7.py'')
         then (pkill_f ''TelegramBot.py'' w, [Ended])
         else if raises2 then
           (pkill_f ''TelegramBot.py'' w, [Logged ''Could not kill existing processes''])
         else if pkill_matches ''StudentBot.py'' (supervisor h ''keep_bot_alive_24x7.py'')
         then (pkill_f ''StudentBot.py'' (pkill_f ''TelegramBot.py'' w), [Ended])
         else (pkill_f ''StudentBot.py'' (pkill_f ''TelegramBot.py'' w), [Slept 2, Logged ''Cleared any existing bot processes''])))"

definition start_teacher_bot ::
  "host \<Rightarrow> launch \<Rightarrow> keeper \<times> world \<Rightarrow> (keeper \<times> world) \<times> event list \<times> bool" where
  "start_teacher_bot h l sw =
     (case sw of (s, w) \<Rightarrow>
       (case l of
          PopenRaises \<Rightarrow>
            ((s, w),
             [Logged ''Starting Teacher Bot...'', Launching Teacher, Launch Teacher False,
              Logged ''Error starting Teacher Bot''], False)
        | ExitsEarly \<Rightarrow>
            (case popen w (sys_executable h) [''TelegramBot.py'']
                    [(''DEPLOYMENT_MODE'', ''polling_keepalive''), (''ENVIRONMENT'', ''production'')]
             of (w1, p) \<Rightarrow>
               ((s\<lparr>teacher_process := Some p\<rparr>, proc_exit w1 p),
                [Logged ''Starting Teacher Bot...'', Launching Teacher, Slept 5, Launch Teacher False,
                 Logged ''Teacher Bot failed to start''], False))
        | StaysUp \<Rightarrow>
            (case popen w (sys_executable h) [''TelegramBot.py'']
                    [(''DEPLOYMENT_MODE'', ''polling_keepalive''), (''ENVIRONMENT'', ''production'')]
             of (w1, p) \<Rightarrow>
               ((s\<lparr>teacher_process := Some p\<rparr>, w1),
                [Logged ''Starting Teacher Bot...'', Launching Teacher, Slept 5, Launch Teacher True,
                 Logged ''Teacher Bot started successfully''], True))))"

definition start_student_bot ::
  "host \<Rightarrow> launch \<Rightarrow> keeper \<times> world \<Rightarrow> (keeper \<times> world) \<times> event list \<times> bool" where
  "start_student_bot h l sw =
     (case sw of (s, w) \<Rightarrow>
       (case l of
          PopenRaises \<Rightarrow>
            ((s, w),
             [Logged ''Starting Student Bot...'', Launching Student, Launch Student False,
              Logged ''Error starting Student Bot''], False)
        | ExitsEarly \<Rightarrow>
            (case popen w (sys_executable h) [''StudentBot.py'']
                    [(''ENVIRONMENT'', ''production'')]
             of (w1, p) \<Rightarrow>
               ((s\<lparr>student_process := Some p\<rparr>, proc_exit w1 p),
                [Logged ''Starting Student Bot...'', Launching Student, Slept 5, Launch Student False,
                 Logged ''Student Bot failed to start''], False))
        | StaysUp \<Rightarrow>
            (case popen w (sys_executable h) [''StudentBot.py'']
                    [(''ENVIRONMENT'', ''production'')]
             of (w1, p) \<Rightarrow>
               ((s\<lparr>student_process := Some p\<rparr>, w1),
                [Logged ''Starting Student Bot...'', Launching Student, Slept 5, Launch Student True,
                 Logged ''Student Bot started successfully''], True))))"

definition check_bots_health :: "keeper \<Rightarrow> world \<Rightarrow> json \<times> json" where
  "check_bots_health s w =
     (proc_alive w (teacher_process s), proc_alive w (student_process s))"

text \<open>
  The last component of the result is the returned value, \<open>None\<close> when the kill has ended
  the supervisor, which then returns nothing and launches nothing.
\<close>

definition restart_bots ::
  "host \<Rightarrow> restart_env \<Rightarrow> keeper \<times> world \<Rightarrow> (keeper \<times> world) \<times> event list \<times> bool option" where
  "restart_bots h e sw =
     (case sw of (s, w) \<Rightarrow>
       (let s1 = s\<lparr>restart_count := restart_count s + 1\<rparr> in
        case kill_existing_bots h (kill1_raises e) (kill2_raises e) w of (w1, tr_kill) \<Rightarrow>
        if ended tr_kill
        then ((s1, w1), [Restarting [Teacher, Student], Logged ''Restarting bots''] @ tr_kill, None)
        else
        case start_teacher_bot h (teacher_launch e) (s1, w1) of
          (sw2, tr_teacher, teacher_ok) \<Rightarrow>
        case start_student_bot h (student_launch e) sw2 of
          (sw3, tr_student, student_ok) \<Rightarrow>
          (sw3,
           [Restarting [Teacher, Student], Logged ''Restarting bots''] @ tr_kill @ tr_teacher @
           tr_student @
           [Logged (if teacher_ok \<and> student_ok then ''Both bots restarted successfully''
                    else ''Failed to restart one or both bots'')],
           Some (teacher_ok \<and> student_ok))))"

text \<open>The answer is \<open>None\<close> when the supervisor has been ended and sends nothing.\<close>

definition restart_bots_endpoint ::
  "host \<Rightarrow> restart_env \<Rightarrow> keeper \<times> world \<Rightarrow> (keeper \<times> world) \<times> response option" where
  "restart_bots_endpoint h e sw =
     (case restart_bots h e sw of (sw1, tr, result) \<Rightarrow>
        (sw1,
         case result of
           None \<Rightarrow> None
         | Some success \<Rightarrow> Some (jsonify
            [(''status'', JStr (if success then ''success'' else ''failed'')),
             (''message'', JStr (if success then ''Bots restarted'' else ''Failed to restart bots'')),
             (''restart_count'', JNum (restart_count (fst sw1)))])))"

text \<open>One request: the route, the clock readings of the handler, and the restart environment.\<close>

record request =
  path :: route
  clock1 :: time
  clock2 :: time
  req_env :: restart_env

definition keeper_handle ::
  "host \<Rightarrow> request \<Rightarrow> keeper \<times> world \<Rightarrow> (keeper \<times> world) \<times> response option" where
  "keeper_handle h r sw =
     (case sw of (s, w) \<Rightarrow>
       (case path r of
          Home \<Rightarrow> (sw, Some home)
        | Health \<Rightarrow> (sw, Some (health s w (clock1 r) (clock2 r)))
        | KeepAlive \<Rightarrow>
            (case keep_alive s (clock1 r) (clock2 r) of (s1, resp) \<Rightarrow> ((s1, w), Some resp))
        | Ping \<Rightarrow> (sw, Some ping)
        | RestartBots \<Rightarrow> restart_bots_endpoint h (req_env r) sw))"

text \<open>One pass of the body of \<^verbatim>\<open>while self.running:\<close> in \<^verbatim>\<open>monitor_bots_loop\<close>.\<close>

definition monitor_iteration ::
  "host \<Rightarrow> iter_env \<Rightarrow> keeper \<times> world \<Rightarrow> (keeper \<times> world) \<times> event list" where
  "monitor_iteration h e sw =
     (case sw of (s, w0) \<Rightarrow>
       (let w = procs_exit w0 (exited e) in
        if check_raises e then ((s, w), [Logged ''Monitor error'', Slept 60])
        else
          (case check_bots_health s w of (teacher_alive, student_alive) \<Rightarrow>
            if \<not> truthy teacher_alive \<or> \<not> truthy student_alive then
              (case restart_bots h (renv e) (s, w) of (sw1, tr, result) \<Rightarrow>
                 (sw1,
                  [Logged ''One or both bots have died!'', Logged ''Teacher Bot'',
                   Logged ''Student Bot''] @ tr @
                  (case result of
                     None \<Rightarrow> []
                   | Some ok \<Rightarrow>
                       (if \<not> ok then [Logged ''Failed to restart, will retry in 30 seconds...'', Slept 30] else []) @
                       [Slept 120])))
            else ((s, w), [Logged ''Both bots healthy'', Slept 120]))))"

text \<open>
  \<^verbatim>\<open>monitor_bots_loop\<close>, run for as many passes as environments are supplied; it leaves
  the loop when \<^verbatim>\<open>self.running\<close> is false, and no pass follows one in which the supervisor
  has been ended.
\<close>

fun monitor_bots_loop ::
  "host \<Rightarrow> iter_env list \<Rightarrow> keeper \<times> world \<Rightarrow> (keeper \<times> world) \<times> event list" where
  "monitor_bots_loop h [] sw = (sw, [])"
| "monitor_bots_loop h (e # es) sw =
     (if running (fst sw) then
        (case monitor_iteration h e sw of (sw1, tr) \<Rightarrow>
          if ended tr then (sw1, tr)
          else (case monitor_bots_loop h es sw1 of (sw2, tr') \<Rightarrow> (sw2, tr @ tr')))
      else (sw, []))"

text \<open>
  One pass of \<^verbatim>\<open>self_ping_loop\<close>: the request reaches the local \<^verbatim>\<open>/keep-alive\<close> handler (which
  then runs) or it does not; either way the loop sleeps 300 seconds.
\<close>

definition self_ping_iteration :: "bool \<Rightarrow> time \<Rightarrow> time \<Rightarrow> keeper \<Rightarrow> keeper \<times> event list" where
  "self_ping_iteration reached t1 t2 s =
     (if reached then (fst (keep_alive s t1 t2), [Logged ''Self-ping successful'', Slept 300])
      else (s, [Logged ''Self-ping failed'', Slept 300]))"

definition start ::
  "host \<Rightarrow> restart_env \<Rightarrow> keeper \<times> world \<Rightarrow> (keeper \<times> world) \<times> event list \<times> bool option" where
  "start h e sw =
     (case sw of (s, w) \<Rightarrow>
       (case kill_existing_bots h (kill1_raises e) (kill2_raises e) w of (w1, tr_kill) \<Rightarrow>
        if ended tr_kill then ((s, w1), [Logged ''Starting 24/7 Telegram Bot Keep-Alive System'', Slept 2,
            Logged ''HTTP server started successfully''] @ tr_kill, None)
        else
        case start_teacher_bot h (teacher_launch e) (s, w1) of
          (sw2, tr_teacher, teacher_ok) \<Rightarrow>
        case start_student_bot h (student_launch e) sw2 of
          (sw3, tr_student, student_ok) \<Rightarrow>
          (sw3,
           [Logged ''Starting 24/7 Telegram Bot Keep-Alive System'', Slept 2,
            Logged ''HTTP server started successfully''] @ tr_kill @ tr_teacher @ tr_student @
           [Logged (if teacher_ok \<and> student_ok then ''System started successfully!''
                    else ''Failed to start one or both bots'')],
           Some (teacher_ok \<and> student_ok))))"

definition stop :: "keeper \<times> world \<Rightarrow> keeper \<times> world" where
  "stop sw =
     (case sw of (s, w) \<Rightarrow>
        (s\<lparr>running := False\<rparr>, terminate (terminate w (teacher_process s)) (student_process s)))"

text \<open>Every operation that touches a \<^verbatim>\<open>BotKeepAlive24x7\<close> object or its processes.\<close>

datatype keeper_op =
    Request request
  | MonitorPass iter_env
  | SelfPing bool time time
  | KillExisting bool bool
  | StartTeacher launch
  | StartStudent launch
  | RestartOp restart_env
  | Start restart_env
  | Stop
  | ProcsExit "nat list"

definition keeper_step :: "host \<Rightarrow> keeper_op \<Rightarrow> keeper \<times> world \<Rightarrow> keeper \<times> world" where
  "keeper_step h op sw =
     (case op of
        Request r \<Rightarrow> fst (keeper_handle h r sw)
      | MonitorPass e \<Rightarrow> fst (monitor_iteration h e sw)
      | SelfPing reached t1 t2 \<Rightarrow> (fst (self_ping_iteration reached t1 t2 (fst sw)), snd sw)
      | KillExisting r1 r2 \<Rightarrow> (fst sw, fst (kill_existing_bots h r1 r2 (snd sw)))
      | StartTeacher l \<Rightarrow> fst (start_teacher_bot h l sw)
      | StartStudent l \<Rightarrow> fst (start_student_bot h l sw)
      | RestartOp e \<Rightarrow> fst (restart_bots h e sw)
      | Start e \<Rightarrow> fst (start h e sw)
      | Stop \<Rightarrow> stop sw
      | ProcsExit ps \<Rightarrow> (fst sw, procs_exit (snd sw) ps))"

definition keeper_run :: "host \<Rightarrow> keeper_op list \<Rightarrow> keeper \<times> world \<Rightarrow> keeper \<times> world" where
  "keeper_run h ops sw = foldl (\<lambda>x op. keeper_step h op x) sw ops"


section \<open>webserver.py: the module-level server used by run_cloud_24_7.py\<close>

record webserver =
  bot_start_time :: time
  last_keepalive_ping :: time
  keepalive_count :: int

definition ws_init :: "time \<Rightarrow> time \<Rightarrow> webserver" where
  "ws_init now1 now2 =
     \<lparr>bot_start_time = now1, last_keepalive_ping = now2, keepalive_count = 0\<rparr>"

definition ws_home :: response where
  "ws_home = text_response ([CHR 0xF0, CHR 0x9F, CHR 0xA4, CHR 0x96] @
     '' Telegram Quiz Bot is running! '' @ [CHR 0xF0, CHR 0x9F, CHR 0x8E, CHR 0x93])"

definition ws_health :: "webserver \<Rightarrow> time \<Rightarrow> time \<Rightarrow> response" where
  "ws_health g now1 now2 =
     (let uptime = now1 - bot_start_time g
      in jsonify
        [(''status'', JStr ''healthy''),
         (''uptime_seconds'', JNum (total_seconds_int uptime)),
         (''uptime_formatted'', JDelta uptime),
         (''last_keepalive'', JIso (last_keepalive_ping g)),
         (''keepalive_count'', JNum (keepalive_count g)),
         (''timestamp'', JIso now2)])"

definition ws_keep_alive_endpoint :: "webserver \<Rightarrow> time \<Rightarrow> webserver \<times> response" where
  "ws_keep_alive_endpoint g now1 =
     (let g1 = g\<lparr>last_keepalive_ping := now1\<rparr>;
          g2 = g1\<lparr>keepalive_count := keepalive_count g1 + 1\<rparr>
      in (g2, jsonify
        [(''status'', JStr ''alive''),
         (''message'', JStr ''Bot is running''),
         (''ping_count'', JNum (keepalive_count g2)),
         (''timestamp'', JIso (last_keepalive_ping g2))]))"

definition ws_ping :: response where
  "ws_ping = text_response ''pong''"

text \<open>webserver.py registers no \<^verbatim>\<open>/restart-bots\<close> route.\<close>

definition ws_handle :: "request \<Rightarrow> webserver \<Rightarrow> webserver \<times> response" where
  "ws_handle r g =
     (case path r of
        Home \<Rightarrow> (g, ws_home)
      | Health \<Rightarrow> (g, ws_health g (clock1 r) (clock2 r))
      | KeepAlive \<Rightarrow> ws_keep_alive_endpoint g (clock1 r)
      | Ping \<Rightarrow> (g, ws_ping)
      | RestartBots \<Rightarrow> (g, not_found))"

definition ws_run :: "request list \<Rightarrow> webserver \<Rightarrow> webserver" where
  "ws_run rs g = foldl (\<lambda>x r. fst (ws_handle r x)) g rs"


section \<open>run_cloud_24_7.py: class CloudRunBotManager\<close>

text \<open>
  The thread attributes of the class are written once and never read; they are left out.
\<close>

record cloud =
  teacher_process :: "nat option"
  student_process :: "nat option"
  running :: bool
  restart_count :: int
  start_time :: time

definition cloud_init :: "time \<Rightarrow> cloud" where
  "cloud_init now1 =
     \<lparr>teacher_process = None, student_process = None, running = True, restart_count = 0,
      start_time = now1\<rparr>"

definition cloud_kill_existing_bots :: "host \<Rightarrow> bool \<Rightarrow> bool \<Rightarrow> world \<Rightarrow> world \<times> event list" where
  "cloud_kill_existing_bots h raises1 raises2 w =
     (if os_name h = ''nt'' then
        (if raises1 then (w, [Logged ''Could not kill existing processes''])
         else if taskkill_matches ''python.exe'' (supervisor h ''run_cloud_24_7.py'')
         then (taskkill_im ''python.exe'' w, [Ended])
         else (taskkill_im ''python.exe'' w, [Slept 2]))
      else
        (if raises1 then (w, [Logged ''Could not kill existing processes''])
         else if pkill_matches ''TelegramBot.py'' (supervisor h ''run_cloud_24_7.py'')
         then (pkill_f ''TelegramBot.py'' w, [Ended])
         else if raises2 then
           (pkill_f ''TelegramBot.py'' w, [Logged ''Could not kill existing processes''])
         else if pkill_matches ''StudentBot.py'' (supervisor h ''run_cloud_24_7.py'')
         then (pkill_f ''StudentBot.py'' (pkill_f ''TelegramBot.py'' w), [Ended])
         else (pkill_f ''StudentBot.py'' (pkill_f ''TelegramBot.py'' w), [Slept 2])))"

definition cloud_start_teacher_bot ::
  "host \<Rightarrow> launch \<Rightarrow> cloud \<times> world \<Rightarrow> (cloud \<times> world) \<times> event list \<times> bool" where
  "cloud_start_teacher_bot h l sw =
     (case sw of (s, w) \<Rightarrow>
       (case l of
          PopenRaises \<Rightarrow>
            ((s, w),
             [Logged ''Starting Teacher Bot...'', Launching Teacher, Launch Teacher False,
              Logged ''Error starting Teacher Bot''], False)
        | ExitsEarly \<Rightarrow>
            (case popen w (sys_executable h) [''TelegramBot.py''] [(''ENVIRONMENT'', ''cloud_run'')]
             of (w1, p) \<Rightarrow>
               ((s\<lparr>teacher_process := Some p\<rparr>, proc_exit w1 p),
                [Logged ''Starting Teacher Bot...'', Launching Teacher, Slept 3, Launch Teacher False,
                 Logged ''Teacher Bot failed to start''], False))
        | StaysUp \<Rightarrow>
            (case popen w (sys_executable h) [''TelegramBot.py''] [(''ENVIRONMENT'', ''cloud_run'')]
             of (w1, p) \<Rightarrow>
               ((s\<lparr>teacher_process := Some p\<rparr>, w1),
                [Logged ''Starting Teacher Bot...'', Launching Teacher, Slept 3, Launch Teacher True,
                 Logged ''Teacher Bot started successfully''], True))))"

definition cloud_start_student_bot ::
  "host \<Rightarrow> launch \<Rightarrow> cloud \<times> world \<Rightarrow> (cloud \<times> world) \<times> event list \<times> bool" where
  "cloud_start_student_bot h l sw =
     (case sw of (s, w) \<Rightarrow>
       (case l of
          PopenRaises \<Rightarrow>
            ((s, w),
             [Logged ''Starting Student Bot...'', Launching Student, Launch Student False,
              Logged ''Error starting Student Bot''], False)
        | ExitsEarly \<Rightarrow>
            (case popen w (sys_executable h) [''StudentBot.py''] []
             of (w1, p) \<Rightarrow>
               ((s\<lparr>student_process := Some p\<rparr>, proc_exit w1 p),
                [Logged ''Starting Student Bot...'', Launching Student, Slept 3, Launch Student False,
                 Logged ''Student Bot failed to start''], False))
        | StaysUp \<Rightarrow>
            (case popen w (sys_executable h) [''StudentBot.py''] []
             of (w1, p) \<Rightarrow>
               ((s\<lparr>student_process := Some p\<rparr>, w1),
                [Logged ''Starting Student Bot...'', Launching Student, Slept 3, Launch Student True,
                 Logged ''Student Bot started successfully''], True))))"

definition check_bot_health :: "cloud \<Rightarrow> world \<Rightarrow> json \<times> json" where
  "check_bot_health s w =
     (proc_alive w (teacher_process s), proc_alive w (student_process s))"

text \<open>
  The last component of the result is the returned value, \<open>None\<close> when the kill has ended
  the supervisor, which then returns nothing and launches nothing.
\<close>

definition cloud_restart_bots ::
  "host \<Rightarrow> restart_env \<Rightarrow> cloud \<times> world \<Rightarrow> (cloud \<times> world) \<times> event list \<times> bool option" where
  "cloud_restart_bots h e sw =
     (case sw of (s, w) \<Rightarrow>
       (let s1 = s\<lparr>restart_count := restart_count s + 1\<rparr> in
        case cloud_kill_existing_bots h (kill1_raises e) (kill2_raises e) w of (w1, tr_kill) \<Rightarrow>
        if ended tr_kill
        then ((s1, w1), [Restarting [Teacher, Student], Logged ''Restarting bots''] @ tr_kill, None)
        else
        case cloud_start_teacher_bot h (teacher_launch e) (s1, w1) of
          (sw2, tr_teacher, teacher_ok) \<Rightarrow>
        case cloud_start_student_bot h (student_launch e) sw2 of
          (sw3, tr_student, student_ok) \<Rightarrow>
          (sw3,
           [Restarting [Teacher, Student], Logged ''Restarting bots''] @ tr_kill @ tr_teacher @
           tr_student @
           [Logged (if teacher_ok \<and> student_ok then ''Both bots restarted successfully''
                    else ''Failed to restart one or both bots'')],
           Some (teacher_ok \<and> student_ok))))"

text \<open>One pass of the body of \<^verbatim>\<open>while self.running:\<close> in \<^verbatim>\<open>monitor_bots\<close>.\<close>

definition cloud_monitor_iteration ::
  "host \<Rightarrow> iter_env \<Rightarrow> cloud \<times> world \<Rightarrow> (cloud \<times> world) \<times> event list" where
  "cloud_monitor_iteration h e sw =
     (case sw of (s, w0) \<Rightarrow>
       (let w = procs_exit w0 (exited e) in
        if check_raises e then ((s, w), [Logged ''Error in monitor loop'', Slept 60])
        else
          (case check_bot_health s w of (teacher_alive, student_alive) \<Rightarrow>
            if \<not> truthy teacher_alive \<or> \<not> truthy student_alive then
              (case cloud_restart_bots h (renv e) (s, w) of (sw1, tr, result) \<Rightarrow>
                 (sw1,
                  [Logged ''One or both bots have died!'', Logged ''Teacher Bot'',
                   Logged ''Student Bot''] @ tr @
                  (case result of
                     None \<Rightarrow> []
                   | Some ok \<Rightarrow>
                       (if \<not> ok then [Logged ''Failed to restart bots, will retry in 30 seconds...'', Slept 30] else []) @
                       [Slept 120])))
            else ((s, w), [Logged ''Both bots healthy'', Slept 120]))))"

fun monitor_bots ::
  "host \<Rightarrow> iter_env list \<Rightarrow> cloud \<times> world \<Rightarrow> (cloud \<times> world) \<times> event list" where
  "monitor_bots h [] sw = (sw, [])"
| "monitor_bots h (e # es) sw =
     (if running (fst sw) then
        (case cloud_monitor_iteration h e sw of (sw1, tr) \<Rightarrow>
          if ended tr then (sw1, tr)
          else (case monitor_bots h es sw1 of (sw2, tr') \<Rightarrow> (sw2, tr @ tr')))
      else (sw, []))"

definition cloud_start ::
  "host \<Rightarrow> restart_env \<Rightarrow> cloud \<times> world \<Rightarrow> (cloud \<times> world) \<times> event list \<times> bool option" where
  "cloud_start h e sw =
     (case sw of (s, w) \<Rightarrow>
       (case cloud_kill_existing_bots h (kill1_raises e) (kill2_raises e) w of (w1, tr_kill) \<Rightarrow>
        if ended tr_kill then ((s, w1), [Logged ''Starting Google Cloud Run 24/7 Bot Manager''] @ tr_kill, None)
        else
        case cloud_start_teacher_bot h (teacher_launch e) (s, w1) of
          (sw2, tr_teacher, teacher_ok) \<Rightarrow>
        case cloud_start_student_bot h (student_launch e) sw2 of
          (sw3, tr_student, student_ok) \<Rightarrow>
          (sw3,
           [Logged ''Starting Google Cloud Run 24/7 Bot Manager''] @ tr_kill @ tr_teacher @ tr_student @
           [Logged (if teacher_ok \<and> student_ok then ''System started successfully!''
                    else ''Failed to start one or both bots initially'')],
           Some (teacher_ok \<and> student_ok))))"

definition cloud_stop :: "cloud \<times> world \<Rightarrow> cloud \<times> world" where
  "cloud_stop sw =
     (case sw of (s, w) \<Rightarrow>
        (s\<lparr>running := False\<rparr>, terminate (terminate w (teacher_process s)) (student_process s)))"

text \<open>
  The deployed system of run_cloud_24_7.py: the manager, the process table, and the
  webserver module that \<^verbatim>\<open>start_webserver\<close> starts and that answers every HTTP request.
\<close>

datatype cloud_op =
    CRequest request
  | CMonitorPass iter_env
  | CKillExisting bool bool
  | CStartTeacher launch
  | CStartStudent launch
  | CRestartOp restart_env
  | CStart restart_env
  | CStop
  | CProcsExit "nat list"

definition cloud_step ::
  "host \<Rightarrow> cloud_op \<Rightarrow> (cloud \<times> world) \<times> webserver \<Rightarrow> (cloud \<times> world) \<times> webserver" where
  "cloud_step h op x =
     (case x of (sw, g) \<Rightarrow>
       (case op of
          CRequest r \<Rightarrow> (sw, fst (ws_handle r g))
        | CMonitorPass e \<Rightarrow> (fst (cloud_monitor_iteration h e sw), g)
        | CKillExisting r1 r2 \<Rightarrow> ((fst sw, fst (cloud_kill_existing_bots h r1 r2 (snd sw))), g)
        | CStartTeacher l \<Rightarrow> (fst (cloud_start_teacher_bot h l sw), g)
        | CStartStudent l \<Rightarrow> (fst (cloud_start_student_bot h l sw), g)
        | CRestartOp e \<Rightarrow> (fst (cloud_restart_bots h e sw), g)
        | CStart e \<Rightarrow> (fst (cloud_start h e sw), g)
        | CStop \<Rightarrow> (cloud_stop sw, g)
        | CProcsExit ps \<Rightarrow> ((fst sw, procs_exit (snd sw) ps), g)))"

definition cloud_run ::
  "host \<Rightarrow> cloud_op list \<Rightarrow> (cloud \<times> world) \<times> webserver \<Rightarrow> (cloud \<times> world) \<times> webserver" where
  "cloud_run h ops x = foldl (\<lambda>y op. cloud_step h op y) x ops"

text \<open>What \<^verbatim>\<open>/health\<close> of the deployed system answers: the webserver module's view.\<close>

definition cloud_system_health ::
  "(cloud \<times> world) \<times> webserver \<Rightarrow> time \<Rightarrow> time \<Rightarrow> response" where
  "cloud_system_health x t1 t2 = ws_health (snd x) t1 t2"


section \<open>run_bots_24x7_integrated.py: class IntegratedBot24x7\<close>

text \<open>
  The bots run as threads of the supervisor's own process. The thread table holds the
  liveness of every thread created so far; a thread handle is an index into it.
  \<open>teacher_bot\<close> and \<open>student_bot\<close> tell whether the bot object has been stored.
\<close>

type_synonym threads = "bool list"

record integrated =
  teacher_bot :: bool
  student_bot :: bool
  teacher_thread :: "nat option"
  student_thread :: "nat option"
  running :: bool
  start_time :: time
  last_ping :: time
  ping_count :: int
  port :: int
  teacher_running :: bool
  student_running :: bool

definition ibot_init :: "time \<Rightarrow> time \<Rightarrow> int \<Rightarrow> integrated" where
  "ibot_init t1 t2 p =
     \<lparr>teacher_bot = False, student_bot = False, teacher_thread = None, student_thread = None,
      running = True, start_time = t1, last_ping = t2, ping_count = 0, port = p,
      teacher_running = False, student_running = False\<rparr>"

definition ibot_home :: response where
  "ibot_home = text_response ([CHR 0xF0, CHR 0x9F, CHR 0xA4, CHR 0x96] @
     '' Telegram Quiz Bot is running 24/7! '' @ [CHR 0xF0, CHR 0x9F, CHR 0x8E, CHR 0x93])"

definition ibot_health :: "integrated \<Rightarrow> time \<Rightarrow> time \<Rightarrow> response" where
  "ibot_health s t1 t2 =
     (let uptime = t1 - start_time s
      in jsonify
        [(''status'', JStr (if teacher_running s \<and> student_running s
                            then ''healthy'' else ''partial'')),
         (''uptime_seconds'', JNum (total_seconds_int uptime)),
         (''uptime_formatted'', JDelta uptime),
         (''teacher_bot_running'', JBool (teacher_running s)),
         (''student_bot_running'', JBool (student_running s)),
         (''last_ping'', JIso (last_ping s)),
         (''ping_count'', JNum (ping_count s)),
         (''timestamp'', JIso t2)])"

definition ibot_keep_alive :: "integrated \<Rightarrow> time \<Rightarrow> time \<Rightarrow> integrated \<times> response" where
  "ibot_keep_alive s t1 t2 =
     (let s1 = s\<lparr>last_ping := t1\<rparr>;
          s2 = s1\<lparr>ping_count := ping_count s1 + 1\<rparr>
      in (s2, jsonify
        [(''status'', JStr ''alive''),
         (''message'', JStr ''Bot is running 24/7''),
         (''ping_count'', JNum (ping_count s2)),
         (''timestamp'', JIso (last_ping s2)),
         (''uptime'', JDelta (t2 - start_time s2)),
         (''teacher_running'', JBool (teacher_running s2)),
         (''student_running'', JBool (student_running s2))]))"

definition ibot_ping :: response where
  "ibot_ping = text_response ''pong''"

text \<open>run_bots_24x7_integrated.py registers no \<^verbatim>\<open>/restart-bots\<close> route.\<close>

definition ibot_handle :: "request \<Rightarrow> integrated \<Rightarrow> integrated \<times> response" where
  "ibot_handle r s =
     (case path r of
        Home \<Rightarrow> (s, ibot_home)
      | Health \<Rightarrow> (s, ibot_health s (clock1 r) (clock2 r))
      | KeepAlive \<Rightarrow> ibot_keep_alive s (clock1 r) (clock2 r)
      | Ping \<Rightarrow> (s, ibot_ping)
      | RestartBots \<Rightarrow> (s, not_found))"

definition ibot_run :: "request list \<Rightarrow> integrated \<Rightarrow> integrated" where
  "ibot_run rs s = foldl (\<lambda>x r. fst (ibot_handle r x)) s rs"

text \<open>\<^verbatim>\<open>self.X_thread and self.X_thread.is_alive()\<close>.\<close>

definition thread_alive :: "threads \<Rightarrow> nat option \<Rightarrow> json" where
  "thread_alive th h = (case h of None \<Rightarrow> JNull | Some t \<Rightarrow> JBool (t < length th \<and> th ! t))"

text \<open>
  What a new bot thread has done by the end of the grace sleep of three seconds:
  \<^verbatim>\<open>Thread.start()\<close> raised; the import raised; the bot object was stored and
  \<^verbatim>\<open>remove_webhook\<close> or \<^verbatim>\<open>polling\<close> raised; \<^verbatim>\<open>polling\<close> returned; the import is still
  running; or the bot is polling.
\<close>

datatype thread_launch =
  StartRaises | ImportRaises | PollingRaises | PollingReturns | StillImporting | Polling

text \<open>
  The third component of the result tells whether an exception leaves the function
  (only \<^verbatim>\<open>Thread.start()\<close> can raise here; the sleep is then not reached).
\<close>

definition start_teacher_bot_thread ::
  "thread_launch \<Rightarrow> integrated \<times> threads \<Rightarrow> (integrated \<times> threads) \<times> event list \<times> bool" where
  "start_teacher_bot_thread l x =
     (case x of (s, th) \<Rightarrow>
       (let s1 = s\<lparr>teacher_thread := Some (length th)\<rparr> in
        case l of
          StartRaises \<Rightarrow> ((s1, th @ [False]), [Launching Teacher, Launch Teacher False], True)
        | ImportRaises \<Rightarrow>
            ((s1\<lparr>teacher_running := False\<rparr>, th @ [False]),
             [Launching Teacher, Logged ''Starting Teacher Bot...'',
              Logged ''Teacher Bot error'', Slept 3, Launch Teacher False], False)
        | PollingRaises \<Rightarrow>
            ((s1\<lparr>teacher_bot := True, teacher_running := False\<rparr>, th @ [False]),
             [Launching Teacher, Logged ''Starting Teacher Bot...'',
              Logged ''Teacher Bot error'', Slept 3, Launch Teacher False], False)
        | PollingReturns \<Rightarrow>
            ((s1\<lparr>teacher_bot := True, teacher_running := True\<rparr>, th @ [False]),
             [Launching Teacher, Logged ''Starting Teacher Bot...'',
              Logged ''Teacher Bot started successfully'', Slept 3, Launch Teacher False], False)
        | StillImporting \<Rightarrow>
            ((s1, th @ [True]),
             [Launching Teacher, Logged ''Starting Teacher Bot...'', Slept 3, Launch Teacher True], False)
        | Polling \<Rightarrow>
            ((s1\<lparr>teacher_bot := True, teacher_running := True\<rparr>, th @ [True]),
             [Launching Teacher, Logged ''Starting Teacher Bot...'',
              Logged ''Teacher Bot started successfully'', Slept 3, Launch Teacher True], False)))"

definition start_student_bot_thread ::
  "thread_launch \<Rightarrow> integrated \<times> threads \<Rightarrow> (integrated \<times> threads) \<times> event list \<times> bool" where
  "start_student_bot_thread l x =
     (case x of (s, th) \<Rightarrow>
       (let s1 = s\<lparr>student_thread := Some (length th)\<rparr> in
        case l of
          StartRaises \<Rightarrow> ((s1, th @ [False]), [Launching Student, Launch Student False], True)
        | ImportRaises \<Rightarrow>
            ((s1\<lparr>student_running := False\<rparr>, th @ [False]),
             [Launching Student, Logged ''Starting Student Bot...'',
              Logged ''Student Bot error'', Slept 3, Launch Student False], False)
        | PollingRaises \<Rightarrow>
            ((s1\<lparr>student_bot := True, student_running := False\<rparr>, th @ [False]),
             [Launching Student, Logged ''Starting Student Bot...'',
              Logged ''Student Bot error'', Slept 3, Launch Student False], False)
        | PollingReturns \<Rightarrow>
            ((s1\<lparr>student_bot := True, student_running := True\<rparr>, th @ [False]),
             [Launching Student, Logged ''Starting Student Bot...'',
              Logged ''Student Bot started successfully'', Slept 3, Launch Student False], False)
        | StillImporting \<Rightarrow>
            ((s1, th @ [True]),
             [Launching Student, Logged ''Starting Student Bot...'', Slept 3, Launch Student True], False)
        | Polling \<Rightarrow>
            ((s1\<lparr>student_bot := True, student_running := True\<rparr>, th @ [True]),
             [Launching Student, Logged ''Starting Student Bot...'',
              Logged ''Student Bot started successfully'', Slept 3, Launch Student True], False)))"

definition restart_teacher_bot ::
  "thread_launch \<Rightarrow> integrated \<times> threads \<Rightarrow> (integrated \<times> threads) \<times> event list" where
  "restart_teacher_bot l x =
     (case start_teacher_bot_thread l x of (x1, tr, raised) \<Rightarrow>
        (x1, [Restarting [Teacher], Logged ''Restarting Teacher Bot...''] @ tr @
             (if raised then [Logged ''Failed to restart Teacher Bot''] else [])))"

definition restart_student_bot ::
  "thread_launch \<Rightarrow> integrated \<times> threads \<Rightarrow> (integrated \<times> threads) \<times> event list" where
  "restart_student_bot l x =
     (case start_student_bot_thread l x of (x1, tr, raised) \<Rightarrow>
        (x1, [Restarting [Student], Logged ''Restarting Student Bot...''] @ tr @
             (if raised then [Logged ''Failed to restart Student Bot''] else [])))"

text \<open>
  What a running bot thread has done since the last pass of the monitor: nothing, its
  body raised (the handler clears the running flag), \<^verbatim>\<open>polling\<close> returned, or a pending
  import finished and the bot started polling.
\<close>

datatype fate = Unchanged | Raised | Returned | CameUp

definition teacher_fate_step :: "fate \<Rightarrow> integrated \<times> threads \<Rightarrow> integrated \<times> threads" where
  "teacher_fate_step f x =
     (case x of (s, th) \<Rightarrow>
       (case teacher_thread s of
          None \<Rightarrow> x
        | Some t \<Rightarrow>
            if t < length th \<and> th ! t then
              (case f of
                 Unchanged \<Rightarrow> x
               | Raised \<Rightarrow> (s\<lparr>teacher_running := False\<rparr>, th[t := False])
               | Returned \<Rightarrow> (s, th[t := False])
               | CameUp \<Rightarrow> (s\<lparr>teacher_bot := True, teacher_running := True\<rparr>, th))
            else x))"

definition student_fate_step :: "fate \<Rightarrow> integrated \<times> threads \<Rightarrow> integrated \<times> threads" where
  "student_fate_step f x =
     (case x of (s, th) \<Rightarrow>
       (case student_thread s of
          None \<Rightarrow> x
        | Some t \<Rightarrow>
            if t < length th \<and> th ! t then
              (case f of
                 Unchanged \<Rightarrow> x
               | Raised \<Rightarrow> (s\<lparr>student_running := False\<rparr>, th[t := False])
               | Returned \<Rightarrow> (s, th[t := False])
               | CameUp \<Rightarrow> (s\<lparr>student_bot := True, student_running := True\<rparr>, th))
            else x))"

record ibot_env =
  teacher_fate :: fate
  student_fate :: fate
  is_alive_raises :: bool
  teacher_relaunch :: thread_launch
  student_relaunch :: thread_launch

text \<open>One pass of the body of \<^verbatim>\<open>while self.running:\<close> in \<^verbatim>\<open>monitor_bots_loop\<close>.\<close>

definition ibot_monitor_iteration ::
  "ibot_env \<Rightarrow> integrated \<times> threads \<Rightarrow> (integrated \<times> threads) \<times> event list" where
  "ibot_monitor_iteration e x =
     (case student_fate_step (student_fate e) (teacher_fate_step (teacher_fate e) x) of
        (s, th) \<Rightarrow>
          if is_alive_raises e then ((s, th), [Logged ''Monitor error'', Slept 60])
          else
            (let teacher_alive = thread_alive th (teacher_thread s);
                 student_alive = thread_alive th (student_thread s)
             in
             case (if \<not> truthy teacher_alive \<and> teacher_running s then
                     (case restart_teacher_bot (teacher_relaunch e)
                             (s\<lparr>teacher_running := False\<rparr>, th) of
                        (x1, tr) \<Rightarrow> (x1, Logged ''Teacher Bot thread died!'' # tr))
                   else ((s, th), [])) of
               (x1, tr1) \<Rightarrow>
             case (if \<not> truthy student_alive \<and> student_running (fst x1) then
                     (case restart_student_bot (student_relaunch e)
                             ((fst x1)\<lparr>student_running := False\<rparr>, snd x1) of
                        (x2, tr) \<Rightarrow> (x2, Logged ''Student Bot thread died!'' # tr))
                   else (x1, [])) of
               (x2, tr2) \<Rightarrow>
                 (x2, tr1 @ tr2 @
                      (if teacher_running (fst x2) \<and> student_running (fst x2)
                       then [Logged ''Both bots healthy''] else []) @
                      [Slept 120])))"

fun ibot_monitor_bots_loop ::
  "ibot_env list \<Rightarrow> integrated \<times> threads \<Rightarrow> (integrated \<times> threads) \<times> event list" where
  "ibot_monitor_bots_loop [] x = (x, [])"
| "ibot_monitor_bots_loop (e # es) x =
     (if running (fst x) then
        (case ibot_monitor_iteration e x of (x1, tr) \<Rightarrow>
          (case ibot_monitor_bots_loop es x1 of (x2, tr') \<Rightarrow> (x2, tr @ tr')))
      else (x, []))"

text \<open>
  \<^verbatim>\<open>start\<close>: the result is \<open>None\<close> when \<^verbatim>\<open>Thread.start()\<close> raises (nothing catches it here),
  else the returned value, which is always true.
\<close>

definition ibot_start ::
  "thread_launch \<Rightarrow> thread_launch \<Rightarrow> integrated \<times> threads \<Rightarrow>
   (integrated \<times> threads) \<times> event list \<times> bool option" where
  "ibot_start lt ls x =
     (case start_teacher_bot_thread lt x of (x1, tr1, raised1) \<Rightarrow>
        if raised1 then (x1, [Slept 2, Logged ''HTTP server started successfully''] @ tr1, None)
        else
          (case start_student_bot_thread ls x1 of (x2, tr2, raised2) \<Rightarrow>
             if raised2
             then (x2, [Slept 2, Logged ''HTTP server started successfully''] @ tr1 @ tr2, None)
             else (x2, [Slept 2, Logged ''HTTP server started successfully''] @ tr1 @ tr2 @
                       [Slept 5,
                        Logged (if teacher_running (fst x2) \<and> student_running (fst x2)
                                then ''System started successfully!''
                                else ''Some bots may not have started properly'')],
                   Some True)))"

definition ibot_stop :: "integrated \<Rightarrow> integrated" where
  "ibot_stop s = s\<lparr>running := False, teacher_running := False, student_running := False\<rparr>"

text \<open>
  The restart counter an observer reads from a \<^verbatim>\<open>/health\<close> answer, the way
  \<^verbatim>\<open>check_health\<close> of simple_external_pinger.py reads it:
  \<^verbatim>\<open>data.get('restart_count', 0)\<close>.
\<close>

definition observed_restart_count :: "response \<Rightarrow> json" where
  "observed_restart_count r =
     (case body r of Text s \<Rightarrow> JNum 0 | Json kvs \<Rightarrow> dict_get kvs ''restart_count'' (JNum 0))"


section \<open>The external pingers\<close>

text \<open>
  What \<^verbatim>\<open>requests.get\<close> does: it raises a timeout, a connection error or another exception,
  or it returns a response, of which the status code and the result of
  \<^verbatim>\<open>response.json()\<close> are kept (\<open>None\<close> when decoding raises).
\<close>

datatype get_result = Timeout | ConnectionError | OtherError | Got nat "json option"

text \<open>
  \<^verbatim>\<open>data = response.json()\<close> followed by \<^verbatim>\<open>data.get(...)\<close>: both succeed only for a body
  that decodes to a JSON object.
\<close>

definition as_dict :: "json option \<Rightarrow> (string \<times> json) list option" where
  "as_dict b = (case b of Some (JObj kvs) \<Rightarrow> Some kvs | _ \<Rightarrow> None)"

datatype py_error = ZeroDivisionError | ValueError | OverflowError

text \<open>
  \<^verbatim>\<open>time.sleep(secs)\<close> on an integer: it raises \<^verbatim>\<open>ValueError\<close> for a negative length and
  \<^verbatim>\<open>OverflowError\<close> for one above the largest that the platform's clock type holds, which is
  the parameter \<open>sleep_max\<close>; \<open>None\<close> says that it returns.
\<close>

definition py_sleep :: "int \<Rightarrow> int \<Rightarrow> py_error option" where
  "py_sleep sleep_max secs =
     (if secs < 0 then Some ValueError
      else if sleep_max < secs then Some OverflowError
      else None)"

text \<open>Python's \<^verbatim>\<open>a / b\<close> on integers; the quotient is kept as a real number.\<close>

definition truediv :: "int \<Rightarrow> int \<Rightarrow> py_error + real" where
  "truediv a b = (if b = 0 then Inl ZeroDivisionError else Inr (real_of_int a / real_of_int b))"

text \<open>How a \<^verbatim>\<open>main\<close> ends: with an exit code, or in its endless loop with an interval.\<close>

datatype outcome = Exit nat | Continuous int

definition rstrip_slash :: "string \<Rightarrow> string" where
  "rstrip_slash s = rev (dropWhile (\<lambda>c. c = CHR ''/'') (rev s))"

subsection \<open>external_keepalive_monitor.py: class ExternalKeepAliveMonitor\<close>

record monitor =
  cloud_run_url :: string
  ping_count :: int
  success_count :: int
  error_count :: int
  start_time :: time

definition monitor_init :: "string \<Rightarrow> time \<Rightarrow> monitor" where
  "monitor_init url t =
     \<lparr>cloud_run_url = rstrip_slash url, ping_count = 0, success_count = 0, error_count = 0,
      start_time = t\<rparr>"

definition ping_service :: "monitor \<Rightarrow> get_result \<Rightarrow> monitor \<times> bool" where
  "ping_service m r =
     (let m1 = m\<lparr>ping_count := ping_count m + 1\<rparr> in
      case r of
        Got code b \<Rightarrow>
          if code = 200 then
            (let m2 = m1\<lparr>success_count := success_count m1 + 1\<rparr> in
             case as_dict b of
               None \<Rightarrow> (m2\<lparr>error_count := error_count m2 + 1\<rparr>, False)
             | Some kvs \<Rightarrow> (m2, True))
          else (m1, False)
      | Timeout \<Rightarrow> (m1\<lparr>error_count := error_count m1 + 1\<rparr>, False)
      | ConnectionError \<Rightarrow> (m1\<lparr>error_count := error_count m1 + 1\<rparr>, False)
      | OtherError \<Rightarrow> (m1\<lparr>error_count := error_count m1 + 1\<rparr>, False))"

definition check_health :: "get_result \<Rightarrow> bool" where
  "check_health r =
     (case r of
        Got code b \<Rightarrow>
          if code = 200 then (case as_dict b of None \<Rightarrow> False | Some kvs \<Rightarrow> True)
          else False
      | _ \<Rightarrow> False)"

text \<open>\<^verbatim>\<open>print_stats\<close>: the value is the success rate it computes, or the error it raises.\<close>

definition print_stats :: "monitor \<Rightarrow> py_error + real" where
  "print_stats m =
     (if ping_count m > 0 then
        (case truediv (success_count m) (ping_count m) of
           Inl e \<Rightarrow> Inl e
         | Inr q \<Rightarrow> Inr (q * 100))
      else Inr 0)"

definition run_once :: "monitor \<Rightarrow> get_result \<Rightarrow> get_result \<Rightarrow> monitor \<times> bool" where
  "run_once m health_r ping_r =
     (let health_ok = check_health health_r in
      case ping_service m ping_r of (m1, ping_ok) \<Rightarrow> (m1, health_ok \<and> ping_ok))"

text \<open>
  \<^verbatim>\<open>run_continuous\<close>, one pass per pair of answers (to the ping, to the health check); when
  the answers run out the user interrupts. Both handlers call \<^verbatim>\<open>print_stats\<close>; an error of
  \<^verbatim>\<open>time.sleep\<close> is caught by the second handler, after which the method returns.
\<close>

fun run_continuous ::
  "int \<Rightarrow> int \<Rightarrow> (get_result \<times> get_result) list \<Rightarrow> monitor \<Rightarrow> py_error + monitor" where
  "run_continuous sleep_max interval [] m =
     (case print_stats m of Inl e \<Rightarrow> Inl e | Inr q \<Rightarrow> Inr m)"
| "run_continuous sleep_max interval (r # rs) m =
     (let m1 = fst (ping_service m (fst r)) in
      case (if ping_count m1 mod 6 = 0 then print_stats m1 else Inr 0) of
        Inl e \<Rightarrow> (case print_stats m1 of Inl e' \<Rightarrow> Inl e' | Inr q \<Rightarrow> Inr m1)
      | Inr q \<Rightarrow>
          (case py_sleep sleep_max (interval * 60) of
             Some e \<Rightarrow> (case print_stats m1 of Inl e' \<Rightarrow> Inl e' | Inr q' \<Rightarrow> Inr m1)
           | None \<Rightarrow> run_continuous sleep_max interval rs m1))"

text \<open>
  \<^verbatim>\<open>main\<close>. \<open>py_int\<close> is Python's \<^verbatim>\<open>int()\<close> on a string, \<open>None\<close> where it raises; nothing
  catches that error, so the interpreter exits with code 1.
\<close>

definition monitor_main ::
  "(string \<Rightarrow> int option) \<Rightarrow> string list \<Rightarrow> time \<Rightarrow> get_result \<Rightarrow> get_result \<Rightarrow> outcome" where
  "monitor_main py_int argv t health_r ping_r =
     (if length argv < 2 then Exit 1
      else
        (let url = argv ! 1;
             mode = (if length argv > 2 then argv ! 2 else ''continuous'')
         in case (if length argv > 3 then py_int (argv ! 3) else Some 5) of
              None \<Rightarrow> Exit 1
            | Some interval \<Rightarrow>
                if mode = ''once''
                then (if snd (run_once (monitor_init url t) health_r ping_r) then Exit 0 else Exit 1)
                else Continuous interval))"

subsection \<open>simple_external_pinger.py\<close>

definition ping_bot :: "get_result \<Rightarrow> bool" where
  "ping_bot r =
     (case r of
        Got code b \<Rightarrow>
          if code = 200 then (case as_dict b of None \<Rightarrow> False | Some kvs \<Rightarrow> True)
          else False
      | _ \<Rightarrow> False)"

text \<open>The result is the Python value that \<^verbatim>\<open>check_health\<close> returns.\<close>

definition pinger_check_health :: "get_result \<Rightarrow> json" where
  "pinger_check_health r =
     (case r of
        Got code b \<Rightarrow>
          if code = 200 then
            (case as_dict b of
               None \<Rightarrow> JBool False
             | Some kvs \<Rightarrow>
                 py_and (dict_get kvs ''teacher_bot_running'' (JBool False))
                        (dict_get kvs ''student_bot_running'' (JBool False)))
          else JBool False
      | _ \<Rightarrow> JBool False)"

text \<open>
  The continuous branch of \<^verbatim>\<open>main\<close>: the counters, one pass per pair of answers (to the
  ping, to the health check). The division inside the loop is unguarded, and nothing
  catches an error of \<^verbatim>\<open>time.sleep\<close>.
\<close>

fun pinger_loop ::
  "int \<Rightarrow> int \<Rightarrow> (get_result \<times> get_result) list \<Rightarrow> int \<times> int \<Rightarrow> py_error + (int \<times> int)" where
  "pinger_loop sleep_max interval [] c = Inr c"
| "pinger_loop sleep_max interval (r # rs) c =
     (let ping_count = fst c + 1;
          success_count = (if ping_bot (fst r) then snd c + 1 else snd c)
      in case (if ping_count mod 6 = 0
               then (case truediv success_count ping_count of
                       Inl e \<Rightarrow> Inl e | Inr q \<Rightarrow> Inr (q * 100))
               else Inr 0) of
           Inl e \<Rightarrow> Inl e
         | Inr q \<Rightarrow>
             (case py_sleep sleep_max (interval * 60) of
                Some e \<Rightarrow> Inl e
              | None \<Rightarrow> pinger_loop sleep_max interval rs (ping_count, success_count)))"

text \<open>The \<^verbatim>\<open>KeyboardInterrupt\<close> handler's success rate, on the counters as they then are.\<close>

definition final_stats :: "int \<times> int \<Rightarrow> py_error + real" where
  "final_stats c =
     (if fst c > 0 then
        (case truediv (snd c) (fst c) of Inl e \<Rightarrow> Inl e | Inr q \<Rightarrow> Inr (q * 100))
      else Inr 0)"

definition pinger_main ::
  "(string \<Rightarrow> int option) \<Rightarrow> string list \<Rightarrow> get_result \<Rightarrow> get_result \<Rightarrow> outcome" where
  "pinger_main py_int argv health_r ping_r =
     (if length argv < 2 then Exit 1
      else
        (case (if length argv > 2 then py_int (argv ! 2) else Some 5) of
           None \<Rightarrow> Exit 1
         | Some interval \<Rightarrow>
             if interval = 0 then
               (let health_ok = pinger_check_health health_r;
                    ping_ok = ping_bot ping_r
                in if truthy health_ok \<and> ping_ok then Exit 0 else Exit 1)
             else Continuous interval))"

text \<open>A server's answer as the pinger receives it.\<close>

definition received :: "response \<Rightarrow> get_result" where
  "received r =
     Got (status_code r) (case body r of Text s \<Rightarrow> None | Json kvs \<Rightarrow> Some (JObj kvs))"


section \<open>Properties of traces and of process tables\<close>

text \<open>
  The seconds slept from the head of a trace up to the begin of the next launch attempt
  of worker \<open>w\<close>; \<open>None\<close> when the trace has no further launch attempt of \<open>w\<close>.
\<close>

fun slept_before_launch :: "worker \<Rightarrow> event list \<Rightarrow> nat option" where
  "slept_before_launch w [] = None"
| "slept_before_launch w (Slept n # es) = map_option (\<lambda>t. n + t) (slept_before_launch w es)"
| "slept_before_launch w (Launching w' # es) =
     (if w' = w then Some 0 else slept_before_launch w es)"
| "slept_before_launch w (Logged m # es) = slept_before_launch w es"
| "slept_before_launch w (Restarting ws # es) = slept_before_launch w es"
| "slept_before_launch w (Launch w' ok # es) = slept_before_launch w es"
| "slept_before_launch w (Ended # es) = slept_before_launch w es"

text \<open>
  Every failed launch of a worker in the trace is followed by at least \<open>c\<close> seconds of
  sleep before the next launch attempt of that worker begins.
\<close>

fun cooldown_respected :: "nat \<Rightarrow> event list \<Rightarrow> bool" where
  "cooldown_respected c [] = True"
| "cooldown_respected c (Launch w ok # es) =
     ((ok \<or> (case slept_before_launch w es of None \<Rightarrow> True | Some t \<Rightarrow> c \<le> t)) \<and>
      cooldown_respected c es)"
| "cooldown_respected c (Slept n # es) = cooldown_respected c es"
| "cooldown_respected c (Logged m # es) = cooldown_respected c es"
| "cooldown_respected c (Restarting ws # es) = cooldown_respected c es"
| "cooldown_respected c (Launching w # es) = cooldown_respected c es"
| "cooldown_respected c (Ended # es) = cooldown_respected c es"

text \<open>
  The processes at which \<^verbatim>\<open>kill_existing_bots\<close> aims: on Windows every process of the image
  \<^verbatim>\<open>python.exe\<close>, elsewhere every process whose command line matches one of the two bot
  script names.
\<close>

definition kill_target :: "host \<Rightarrow> proc \<Rightarrow> bool" where
  "kill_target h p =
     (if os_name h = ''nt'' then taskkill_matches ''python.exe'' p
      else pkill_matches ''TelegramBot.py'' p \<or> pkill_matches ''StudentBot.py'' p)"

text \<open>
  A worker handle is the process that \<^verbatim>\<open>start_teacher_bot\<close> or \<^verbatim>\<open>start_student_bot\<close> launched:
  the interpreter \<^verbatim>\<open>sys.executable\<close> on the worker's script.
\<close>

definition launched :: "host \<Rightarrow> string \<Rightarrow> world \<Rightarrow> nat option \<Rightarrow> bool" where
  "launched h script w handle =
     (case handle of
        None \<Rightarrow> True
      | Some p \<Rightarrow> p < length w \<and> exe (w ! p) = sys_executable h \<and> args (w ! p) = [script])"



section \<open>What each operation of keep_bot_alive_24x7.py changes\<close>

lemma start_teacher_bot_frame:
  "keeper.ping_count (fst (fst (start_teacher_bot h l sw))) = keeper.ping_count (fst sw)"
  "keeper.restart_count (fst (fst (start_teacher_bot h l sw))) = keeper.restart_count (fst sw)"
  "keeper.last_ping (fst (fst (start_teacher_bot h l sw))) = keeper.last_ping (fst sw)"
  "keeper.running (fst (fst (start_teacher_bot h l sw))) = keeper.running (fst sw)"
  "keeper.student_process (fst (fst (start_teacher_bot h l sw))) = keeper.student_process (fst sw)"
  by (cases sw; cases l; simp add: start_teacher_bot_def popen_def)+

lemma start_student_bot_frame:
  "keeper.ping_count (fst (fst (start_student_bot h l sw))) = keeper.ping_count (fst sw)"
  "keeper.restart_count (fst (fst (start_student_bot h l sw))) = keeper.restart_count (fst sw)"
  "keeper.last_ping (fst (fst (start_student_bot h l sw))) = keeper.last_ping (fst sw)"
  "keeper.running (fst (fst (start_student_bot h l sw))) = keeper.running (fst sw)"
  "keeper.teacher_process (fst (fst (start_student_bot h l sw))) = keeper.teacher_process (fst sw)"
  by (cases sw; cases l; simp add: start_student_bot_def popen_def)+

lemma restart_bots_state:
  "fst (restart_bots h e sw) =
     (if ended (snd (kill_existing_bots h (kill1_raises e) (kill2_raises e) (snd sw)))
      then ((fst sw)\<lparr>keeper.restart_count := keeper.restart_count (fst sw) + 1\<rparr>,
            fst (kill_existing_bots h (kill1_raises e) (kill2_raises e) (snd sw)))
      else fst (start_student_bot h (student_launch e)
       (fst (start_teacher_bot h (teacher_launch e)
          ((fst sw)\<lparr>keeper.restart_count := keeper.restart_count (fst sw) + 1\<rparr>,
           fst (kill_existing_bots h (kill1_raises e) (kill2_raises e) (snd sw)))))))"
  by (cases sw) (simp add: restart_bots_def Let_def split: prod.splits)

lemma restart_bots_frame:
  "keeper.ping_count (fst (fst (restart_bots h e sw))) = keeper.ping_count (fst sw)"
  "keeper.restart_count (fst (fst (restart_bots h e sw))) = keeper.restart_count (fst sw) + 1"
  "keeper.last_ping (fst (fst (restart_bots h e sw))) = keeper.last_ping (fst sw)"
  "keeper.running (fst (fst (restart_bots h e sw))) = keeper.running (fst sw)"
  by (simp_all add: restart_bots_state start_teacher_bot_frame start_student_bot_frame)

lemma start_state:
  "fst (start h e sw) =
     (if ended (snd (kill_existing_bots h (kill1_raises e) (kill2_raises e) (snd sw)))
      then (fst sw, fst (kill_existing_bots h (kill1_raises e) (kill2_raises e) (snd sw)))
      else fst (start_student_bot h (student_launch e)
       (fst (start_teacher_bot h (teacher_launch e)
          (fst sw, fst (kill_existing_bots h (kill1_raises e) (kill2_raises e) (snd sw)))))))"
  by (cases sw) (simp add: start_def split: prod.splits)

lemma start_frame:
  "keeper.ping_count (fst (fst (start h e sw))) = keeper.ping_count (fst sw)"
  "keeper.restart_count (fst (fst (start h e sw))) = keeper.restart_count (fst sw)"
  by (simp_all add: start_state start_teacher_bot_frame start_student_bot_frame)

lemma keep_alive_frame:
  "keeper.ping_count (fst (keep_alive s t1 t2)) = keeper.ping_count s + 1"
  "keeper.last_ping (fst (keep_alive s t1 t2)) = t1"
  "keeper.restart_count (fst (keep_alive s t1 t2)) = keeper.restart_count s"
  "keeper.teacher_process (fst (keep_alive s t1 t2)) = keeper.teacher_process s"
  "keeper.student_process (fst (keep_alive s t1 t2)) = keeper.student_process s"
  by (simp_all add: keep_alive_def Let_def)

lemma monitor_iteration_state:
  "fst (monitor_iteration h e sw) =
     (let w = procs_exit (snd sw) (exited e) in
      if check_raises e then (fst sw, w)
      else if \<not> truthy (proc_alive w (keeper.teacher_process (fst sw))) \<or>
              \<not> truthy (proc_alive w (keeper.student_process (fst sw)))
           then fst (restart_bots h (renv e) (fst sw, w))
           else (fst sw, w))"
  by (cases sw) (simp add: monitor_iteration_def check_bots_health_def Let_def split: prod.splits)

lemma monitor_iteration_frame:
  "keeper.ping_count (fst (fst (monitor_iteration h e sw))) = keeper.ping_count (fst sw)"
  "keeper.restart_count (fst sw) \<le> keeper.restart_count (fst (fst (monitor_iteration h e sw)))"
  by (simp_all add: monitor_iteration_state Let_def restart_bots_frame)

lemma keeper_handle_state:
  "fst (keeper_handle h r sw) =
     (case path r of
        KeepAlive \<Rightarrow> (fst (keep_alive (fst sw) (clock1 r) (clock2 r)), snd sw)
      | RestartBots \<Rightarrow> fst (restart_bots h (req_env r) sw)
      | _ \<Rightarrow> sw)"
  by (cases sw; cases "path r")
     (simp_all add: keeper_handle_def restart_bots_endpoint_def split: prod.splits)

lemma keeper_handle_frame:
  "keeper.ping_count (fst sw) \<le> keeper.ping_count (fst (fst (keeper_handle h r sw)))"
  "keeper.restart_count (fst sw) \<le> keeper.restart_count (fst (fst (keeper_handle h r sw)))"
  by (cases "path r"; simp add: keeper_handle_state keep_alive_frame restart_bots_frame)+

lemma keeper_step_mono:
  "keeper.ping_count (fst sw) \<le> keeper.ping_count (fst (keeper_step h op sw))"
  "keeper.restart_count (fst sw) \<le> keeper.restart_count (fst (keeper_step h op sw))"
  by (cases op;
      simp add: keeper_step_def keeper_handle_frame monitor_iteration_frame
        self_ping_iteration_def keep_alive_frame start_teacher_bot_frame start_student_bot_frame
        restart_bots_frame start_frame stop_def split: prod.splits)+

lemma keeper_run_mono:
  "keeper.ping_count (fst sw) \<le> keeper.ping_count (fst (keeper_run h ops sw))"
  "keeper.restart_count (fst sw) \<le> keeper.restart_count (fst (keeper_run h ops sw))"
proof -
  have "keeper.ping_count (fst sw) \<le> keeper.ping_count (fst (keeper_run h ops sw)) \<and>
        keeper.restart_count (fst sw) \<le> keeper.restart_count (fst (keeper_run h ops sw))"
    unfolding keeper_run_def
  proof (induction ops arbitrary: sw)
    case Nil
    show ?case by simp
  next
    case (Cons op ops)
    have "keeper.ping_count (fst sw) \<le> keeper.ping_count (fst (keeper_step h op sw))"
         "keeper.restart_count (fst sw) \<le> keeper.restart_count (fst (keeper_step h op sw))"
      by (rule keeper_step_mono)+
    with Cons.IH [of "keeper_step h op sw"] show ?case by simp
  qed
  then show "keeper.ping_count (fst sw) \<le> keeper.ping_count (fst (keeper_run h ops sw))"
    and "keeper.restart_count (fst sw) \<le> keeper.restart_count (fst (keeper_run h ops sw))"
    by simp_all
qed


section \<open>The ping counter\<close>

lemma keeper_handle_keep_alive:
  "path r = KeepAlive \<Longrightarrow>
   fst (keeper_handle h r sw) = (fst (keep_alive (fst sw) (clock1 r) (clock2 r)), snd sw)"
  by (simp add: keeper_handle_state)

lemma keeper_handle_health:
  "path q = Health \<Longrightarrow>
   snd (keeper_handle h q sw) = Some (health (fst sw) (snd sw) (clock1 q) (clock2 q))"
  by (cases sw) (simp add: keeper_handle_def)

lemma keeper_run_keep_alives:
  "\<forall>r\<in>set rs. path r = KeepAlive \<Longrightarrow>
   keeper.ping_count (fst (keeper_run h (map Request rs) sw)) =
     keeper.ping_count (fst sw) + int (length rs)"
  unfolding keeper_run_def
proof (induction rs arbitrary: sw)
  case Nil
  show ?case by simp
next
  case (Cons r rs)
  from Cons.prems have r: "path r = KeepAlive" and rs: "\<forall>r\<in>set rs. path r = KeepAlive"
    by simp_all
  from Cons.IH [OF rs, of "keeper_step h (Request r) sw"] r show ?case
    by (simp add: keeper_step_def keeper_handle_keep_alive keep_alive_frame)
qed

lemma health_ping_count:
  "body_field (health s w t1 t2) ''ping_count'' = Some (JNum (keeper.ping_count s))"
  by (simp add: health_def body_field_def jsonify_def Let_def)

lemma ws_keep_alive_frame:
  "keepalive_count (fst (ws_keep_alive_endpoint g t)) = keepalive_count g + 1"
  "last_keepalive_ping (fst (ws_keep_alive_endpoint g t)) = t"
  by (simp_all add: ws_keep_alive_endpoint_def Let_def)

lemma ws_handle_keep_alive:
  "path r = KeepAlive \<Longrightarrow> ws_handle r g = ws_keep_alive_endpoint g (clock1 r)"
  by (simp add: ws_handle_def)

lemma ws_handle_health:
  "path q = Health \<Longrightarrow> snd (ws_handle q g) = ws_health g (clock1 q) (clock2 q)"
  by (simp add: ws_handle_def)

lemma ws_run_keep_alives:
  "\<forall>r\<in>set rs. path r = KeepAlive \<Longrightarrow>
   keepalive_count (ws_run rs g) = keepalive_count g + int (length rs)"
  unfolding ws_run_def
proof (induction rs arbitrary: g)
  case Nil
  show ?case by simp
next
  case (Cons r rs)
  from Cons.prems have r: "path r = KeepAlive" and rs: "\<forall>r\<in>set rs. path r = KeepAlive"
    by simp_all
  from Cons.IH [OF rs, of "fst (ws_handle r g)"] r show ?case
    by (simp add: ws_handle_keep_alive ws_keep_alive_frame)
qed

lemma ws_health_count:
  "body_field (ws_health g t1 t2) ''keepalive_count'' = Some (JNum (keepalive_count g))"
  "body_field (ws_health g t1 t2) ''ping_count'' = None"
  by (simp_all add: ws_health_def body_field_def jsonify_def Let_def)

lemma ws_handle_mono:
  "keepalive_count g \<le> keepalive_count (fst (ws_handle r g))"
  by (cases "path r") (simp_all add: ws_handle_def ws_keep_alive_frame)

lemma ws_run_mono: "keepalive_count g \<le> keepalive_count (ws_run rs g)"
  unfolding ws_run_def
proof (induction rs arbitrary: g)
  case Nil
  show ?case by simp
next
  case (Cons r rs)
  from ws_handle_mono [of g r] Cons.IH [of "fst (ws_handle r g)"] show ?case by simp
qed

lemma ibot_keep_alive_frame:
  "integrated.ping_count (fst (ibot_keep_alive s t1 t2)) = integrated.ping_count s + 1"
  "integrated.last_ping (fst (ibot_keep_alive s t1 t2)) = t1"
  by (simp_all add: ibot_keep_alive_def Let_def)

lemma ibot_handle_keep_alive:
  "path r = KeepAlive \<Longrightarrow> ibot_handle r s = ibot_keep_alive s (clock1 r) (clock2 r)"
  by (simp add: ibot_handle_def)

lemma ibot_handle_health:
  "path q = Health \<Longrightarrow> snd (ibot_handle q s) = ibot_health s (clock1 q) (clock2 q)"
  by (simp add: ibot_handle_def)

lemma ibot_run_keep_alives:
  "\<forall>r\<in>set rs. path r = KeepAlive \<Longrightarrow>
   integrated.ping_count (ibot_run rs s) = integrated.ping_count s + int (length rs)"
  unfolding ibot_run_def
proof (induction rs arbitrary: s)
  case Nil
  show ?case by simp
next
  case (Cons r rs)
  from Cons.prems have r: "path r = KeepAlive" and rs: "\<forall>r\<in>set rs. path r = KeepAlive"
    by simp_all
  from Cons.IH [OF rs, of "fst (ibot_handle r s)"] r show ?case
    by (simp add: ibot_handle_keep_alive ibot_keep_alive_frame)
qed

lemma ibot_health_ping_count:
  "body_field (ibot_health s t1 t2) ''ping_count'' = Some (JNum (integrated.ping_count s))"
  by (simp add: ibot_health_def body_field_def jsonify_def Let_def)

lemma ibot_handle_mono:
  "integrated.ping_count s \<le> integrated.ping_count (fst (ibot_handle r s))"
  by (cases "path r") (simp_all add: ibot_handle_def ibot_keep_alive_frame)

lemma ibot_run_mono: "integrated.ping_count s \<le> integrated.ping_count (ibot_run rs s)"
  unfolding ibot_run_def
proof (induction rs arbitrary: s)
  case Nil
  show ?case by simp
next
  case (Cons r rs)
  from ibot_handle_mono [of s r] Cons.IH [of "fst (ibot_handle r s)"] show ?case by simp
qed

text \<open>
  Claim C1, as amended. In each of the three servers a request on the route
  \<^verbatim>\<open>/keep-alive\<close> adds exactly one to the ping counter and stores the handler's first clock
  reading as the time of the last ping; after N such requests on a fresh state the answer
  to the next request on \<^verbatim>\<open>/health\<close> reports N, in the field \<^verbatim>\<open>ping_count\<close> for
  keep_bot_alive_24x7.py and run_bots_24x7_integrated.py and in the field \<^verbatim>\<open>keepalive_count\<close>
  for webserver.py, whose \<^verbatim>\<open>/health\<close> answer has no \<^verbatim>\<open>ping_count\<close> field; and no sequence of
  operations (of requests, for webserver.py and the integrated runner) lowers the counter.
  Requests are handled one after the other.
\<close>

theorem keep_alive_counts_pings:
  "((path r = KeepAlive \<longrightarrow>
      keeper.ping_count (fst (fst (keeper_handle h r sw))) = keeper.ping_count (fst sw) + 1 \<and>
      keeper.last_ping (fst (fst (keeper_handle h r sw))) = clock1 r) \<and>
    ((\<forall>r\<in>set rs. path r = KeepAlive) \<and> path q = Health \<longrightarrow>
      (\<exists>answer.
         snd (keeper_handle h q (keeper_run h (map Request rs) (keeper_init a b p, w))) =
           Some answer \<and>
         body_field answer ''ping_count'' = Some (JNum (int (length rs))))) \<and>
    keeper.ping_count (fst sw) \<le> keeper.ping_count (fst (keeper_run h ops sw))) \<and>
   ((path r = KeepAlive \<longrightarrow>
      keepalive_count (fst (ws_handle r g)) = keepalive_count g + 1 \<and>
      last_keepalive_ping (fst (ws_handle r g)) = clock1 r) \<and>
    ((\<forall>r\<in>set rs. path r = KeepAlive) \<and> path q = Health \<longrightarrow>
      body_field (snd (ws_handle q (ws_run rs (ws_init a b)))) ''keepalive_count'' =
        Some (JNum (int (length rs))) \<and>
      body_field (snd (ws_handle q (ws_run rs (ws_init a b)))) ''ping_count'' = None) \<and>
    keepalive_count g \<le> keepalive_count (ws_run rs' g)) \<and>
   ((path r = KeepAlive \<longrightarrow>
      integrated.ping_count (fst (ibot_handle r i)) = integrated.ping_count i + 1 \<and>
      integrated.last_ping (fst (ibot_handle r i)) = clock1 r) \<and>
    ((\<forall>r\<in>set rs. path r = KeepAlive) \<and> path q = Health \<longrightarrow>
      body_field (snd (ibot_handle q (ibot_run rs (ibot_init a b p)))) ''ping_count'' =
        Some (JNum (int (length rs)))) \<and>
    integrated.ping_count i \<le> integrated.ping_count (ibot_run rs' i))"
  by (simp add: keeper_handle_keep_alive keep_alive_frame keeper_handle_health
      keeper_run_keep_alives health_ping_count keeper_run_mono
      ws_handle_keep_alive ws_keep_alive_frame ws_handle_health ws_run_keep_alives
      ws_health_count ws_run_mono
      ibot_handle_keep_alive ibot_keep_alive_frame ibot_handle_health ibot_run_keep_alives
      ibot_health_ping_count ibot_run_mono keeper_init_def ws_init_def ibot_init_def)

theorem keep_alive_counts_pings_witness:
  "path \<lparr>path = KeepAlive, clock1 = 1, clock2 = 2,
         req_env = \<lparr>kill1_raises = False, kill2_raises = False,
                    teacher_launch = StaysUp, student_launch = StaysUp\<rparr>\<rparr> = KeepAlive \<and>
   (\<exists>answer.
      snd (keeper_handle \<lparr>os_name = ''posix'', sys_executable = ''python3''\<rparr>
        \<lparr>path = Health, clock1 = 7, clock2 = 8,
         req_env = \<lparr>kill1_raises = False, kill2_raises = False,
                    teacher_launch = StaysUp, student_launch = StaysUp\<rparr>\<rparr>
        (keeper_run \<lparr>os_name = ''posix'', sys_executable = ''python3''\<rparr>
          (map Request
            [\<lparr>path = KeepAlive, clock1 = 1, clock2 = 2,
              req_env = \<lparr>kill1_raises = False, kill2_raises = False,
                         teacher_launch = StaysUp, student_launch = StaysUp\<rparr>\<rparr>,
             \<lparr>path = KeepAlive, clock1 = 3, clock2 = 4,
              req_env = \<lparr>kill1_raises = False, kill2_raises = False,
                         teacher_launch = StaysUp, student_launch = StaysUp\<rparr>\<rparr>])
          (keeper_init 0 0 8080, []))) = Some answer \<and>
      body_field answer ''ping_count'' = Some (JNum 2)) \<and>
   body_field (snd (ws_handle
        \<lparr>path = Health, clock1 = 7, clock2 = 8,
         req_env = \<lparr>kill1_raises = False, kill2_raises = False,
                    teacher_launch = StaysUp, student_launch = StaysUp\<rparr>\<rparr>
        (ws_run
            [\<lparr>path = KeepAlive, clock1 = 1, clock2 = 2,
              req_env = \<lparr>kill1_raises = False, kill2_raises = False,
                         teacher_launch = StaysUp, student_launch = StaysUp\<rparr>\<rparr>,
             \<lparr>path = KeepAlive, clock1 = 3, clock2 = 4,
              req_env = \<lparr>kill1_raises = False, kill2_raises = False,
                         teacher_launch = StaysUp, student_launch = StaysUp\<rparr>\<rparr>]
            (ws_init 0 0)))) ''keepalive_count'' = Some (JNum 2)"
  using keep_alive_counts_pings
    [of "\<lparr>path = KeepAlive, clock1 = 1, clock2 = 2,
         req_env = \<lparr>kill1_raises = False, kill2_raises = False,
                    teacher_launch = StaysUp, student_launch = StaysUp\<rparr>\<rparr>"
      "\<lparr>os_name = ''posix'', sys_executable = ''python3''\<rparr>" "(keeper_init 0 0 8080, [])"
      "[\<lparr>path = KeepAlive, clock1 = 1, clock2 = 2,
              req_env = \<lparr>kill1_raises = False, kill2_raises = False,
                         teacher_launch = StaysUp, student_launch = StaysUp\<rparr>\<rparr>,
             \<lparr>path = KeepAlive, clock1 = 3, clock2 = 4,
              req_env = \<lparr>kill1_raises = False, kill2_raises = False,
                         teacher_launch = StaysUp, student_launch = StaysUp\<rparr>\<rparr>]"
      "\<lparr>path = Health, clock1 = 7, clock2 = 8,
         req_env = \<lparr>kill1_raises = False, kill2_raises = False,
                    teacher_launch = StaysUp, student_launch = StaysUp\<rparr>\<rparr>"
      0 0 8080 "[]" "[]" "ws_init 0 0" "[]" "ibot_init 0 0 8080"]
  by simp

text \<open>
  The claim as stated fails on webserver.py: after one request on \<^verbatim>\<open>/keep-alive\<close> the
  counter is 1, and the answer to the next request on \<^verbatim>\<open>/health\<close> reports no \<^verbatim>\<open>ping_count\<close>
  at all.
\<close>

theorem webserver_health_reports_no_ping_count:
  "keepalive_count (ws_run
      [\<lparr>path = KeepAlive, clock1 = 1, clock2 = 2,
        req_env = \<lparr>kill1_raises = False, kill2_raises = False,
                   teacher_launch = StaysUp, student_launch = StaysUp\<rparr>\<rparr>] (ws_init 0 0)) = 1 \<and>
   body_field (snd (ws_handle
      \<lparr>path = Health, clock1 = 3, clock2 = 4,
       req_env = \<lparr>kill1_raises = False, kill2_raises = False,
                  teacher_launch = StaysUp, student_launch = StaysUp\<rparr>\<rparr>
      (ws_run
        [\<lparr>path = KeepAlive, clock1 = 1, clock2 = 2,
          req_env = \<lparr>kill1_raises = False, kill2_raises = False,
                     teacher_launch = StaysUp, student_launch = StaysUp\<rparr>\<rparr>] (ws_init 0 0))))
     ''ping_count'' = None"
  by (simp add: ws_run_def ws_handle_def ws_keep_alive_endpoint_def ws_health_def ws_init_def
      body_field_def jsonify_def Let_def)


section \<open>The restart counter\<close>

lemma cloud_start_teacher_bot_frame:
  "cloud.restart_count (fst (fst (cloud_start_teacher_bot h l sw))) = cloud.restart_count (fst sw)"
  "cloud.running (fst (fst (cloud_start_teacher_bot h l sw))) = cloud.running (fst sw)"
  by (cases sw; cases l; simp add: cloud_start_teacher_bot_def popen_def)+

lemma cloud_start_student_bot_frame:
  "cloud.restart_count (fst (fst (cloud_start_student_bot h l sw))) = cloud.restart_count (fst sw)"
  "cloud.running (fst (fst (cloud_start_student_bot h l sw))) = cloud.running (fst sw)"
  by (cases sw; cases l; simp add: cloud_start_student_bot_def popen_def)+

lemma cloud_restart_bots_state:
  "fst (cloud_restart_bots h e sw) =
     (if ended (snd (cloud_kill_existing_bots h (kill1_raises e) (kill2_raises e) (snd sw)))
      then ((fst sw)\<lparr>cloud.restart_count := cloud.restart_count (fst sw) + 1\<rparr>,
            fst (cloud_kill_existing_bots h (kill1_raises e) (kill2_raises e) (snd sw)))
      else fst (cloud_start_student_bot h (student_launch e)
       (fst (cloud_start_teacher_bot h (teacher_launch e)
          ((fst sw)\<lparr>cloud.restart_count := cloud.restart_count (fst sw) + 1\<rparr>,
           fst (cloud_kill_existing_bots h (kill1_raises e) (kill2_raises e) (snd sw)))))))"
  by (cases sw) (simp add: cloud_restart_bots_def Let_def split: prod.splits)

lemma cloud_restart_bots_frame:
  "cloud.restart_count (fst (fst (cloud_restart_bots h e sw))) = cloud.restart_count (fst sw) + 1"
  "cloud.running (fst (fst (cloud_restart_bots h e sw))) = cloud.running (fst sw)"
  by (simp_all add: cloud_restart_bots_state cloud_start_teacher_bot_frame
      cloud_start_student_bot_frame)

lemma cloud_start_state:
  "fst (cloud_start h e sw) =
     (if ended (snd (cloud_kill_existing_bots h (kill1_raises e) (kill2_raises e) (snd sw)))
      then (fst sw, fst (cloud_kill_existing_bots h (kill1_raises e) (kill2_raises e) (snd sw)))
      else fst (cloud_start_student_bot h (student_launch e)
       (fst (cloud_start_teacher_bot h (teacher_launch e)
          (fst sw, fst (cloud_kill_existing_bots h (kill1_raises e) (kill2_raises e) (snd sw)))))))"
  by (cases sw) (simp add: cloud_start_def split: prod.splits)

lemma cloud_start_frame:
  "cloud.restart_count (fst (fst (cloud_start h e sw))) = cloud.restart_count (fst sw)"
  by (simp add: cloud_start_state cloud_start_teacher_bot_frame cloud_start_student_bot_frame)

lemma cloud_monitor_iteration_state:
  "fst (cloud_monitor_iteration h e sw) =
     (let w = procs_exit (snd sw) (exited e) in
      if check_raises e then (fst sw, w)
      else if \<not> truthy (proc_alive w (cloud.teacher_process (fst sw))) \<or>
              \<not> truthy (proc_alive w (cloud.student_process (fst sw)))
           then fst (cloud_restart_bots h (renv e) (fst sw, w))
           else (fst sw, w))"
  by (cases sw)
     (simp add: cloud_monitor_iteration_def check_bot_health_def Let_def split: prod.splits)

lemma cloud_monitor_iteration_frame:
  "cloud.restart_count (fst sw) \<le> cloud.restart_count (fst (fst (cloud_monitor_iteration h e sw)))"
  by (simp add: cloud_monitor_iteration_state Let_def cloud_restart_bots_frame)

lemma cloud_step_mono:
  "cloud.restart_count (fst (fst x)) \<le> cloud.restart_count (fst (fst (cloud_step h op x)))"
  by (cases x; cases op)
     (simp_all add: cloud_step_def cloud_monitor_iteration_frame cloud_start_teacher_bot_frame
        cloud_start_student_bot_frame cloud_restart_bots_frame cloud_start_frame cloud_stop_def
        split: prod.splits)

lemma cloud_run_mono:
  "cloud.restart_count (fst (fst x)) \<le> cloud.restart_count (fst (fst (cloud_run h ops x)))"
  unfolding cloud_run_def
proof (induction ops arbitrary: x)
  case Nil
  show ?case by simp
next
  case (Cons op ops)
  from cloud_step_mono [of x h op] Cons.IH [of "cloud_step h op x"] show ?case by simp
qed

lemma ibot_health_no_restart_count:
  "body_field (ibot_health i t1 t2) ''restart_count'' = None"
  "observed_restart_count (ibot_health i t1 t2) = JNum 0"
  by (simp_all add: ibot_health_def body_field_def observed_restart_count_def jsonify_def
      dict_get_def Let_def)

lemma health_restart_count:
  "observed_restart_count (health s w t1 t2) = JNum (keeper.restart_count s)"
  by (simp add: health_def observed_restart_count_def jsonify_def dict_get_def Let_def)

text \<open>
  Claim C3, as amended. In keep_bot_alive_24x7.py and run_cloud_24_7.py no operation
  lowers \<^verbatim>\<open>restart_count\<close>, and one call of \<^verbatim>\<open>restart_bots\<close> adds exactly one to it, whether
  or not the relaunch succeeds. run_bots_24x7_integrated.py keeps no restart counter:
  its \<^verbatim>\<open>/health\<close> answer has no \<^verbatim>\<open>restart_count\<close> field, so an observer reads 0 in every
  state.
\<close>

theorem restart_count_of_subprocess_supervisors:
  "keeper.restart_count (fst sw) \<le> keeper.restart_count (fst (keeper_run h ops sw)) \<and>
   keeper.restart_count (fst (fst (restart_bots h e sw))) = keeper.restart_count (fst sw) + 1 \<and>
   observed_restart_count (health (fst sw) w t1 t2) = JNum (keeper.restart_count (fst sw)) \<and>
   cloud.restart_count (fst (fst x)) \<le> cloud.restart_count (fst (fst (cloud_run h cops x))) \<and>
   cloud.restart_count (fst (fst (cloud_restart_bots h e cw))) = cloud.restart_count (fst cw) + 1 \<and>
   body_field (ibot_health i t1 t2) ''restart_count'' = None \<and>
   observed_restart_count (ibot_health i t1 t2) = JNum 0"
  by (simp add: keeper_run_mono restart_bots_frame health_restart_count cloud_run_mono
      cloud_restart_bots_frame ibot_health_no_restart_count)

theorem restart_count_of_subprocess_supervisors_witness:
  "keeper.restart_count (keeper_init 0 0 8080)
     \<le> keeper.restart_count (fst (keeper_run \<lparr>os_name = ''posix'', sys_executable = ''python3''\<rparr>
          [RestartOp \<lparr>kill1_raises = False, kill2_raises = False,
                      teacher_launch = StaysUp, student_launch = ExitsEarly\<rparr>, Stop]
          (keeper_init 0 0 8080, []))) \<and>
   keeper.restart_count (fst (fst (restart_bots \<lparr>os_name = ''posix'', sys_executable = ''python3''\<rparr>
      \<lparr>kill1_raises = False, kill2_raises = False,
       teacher_launch = StaysUp, student_launch = ExitsEarly\<rparr> (keeper_init 0 0 8080, [])))) = 1 \<and>
   cloud.restart_count (fst (fst (cloud_restart_bots \<lparr>os_name = ''posix'', sys_executable = ''python3''\<rparr>
      \<lparr>kill1_raises = False, kill2_raises = False,
       teacher_launch = StaysUp, student_launch = ExitsEarly\<rparr> (cloud_init 0, [])))) = 1"
  using restart_count_of_subprocess_supervisors
    [of "(keeper_init 0 0 8080, [])" "\<lparr>os_name = ''posix'', sys_executable = ''python3''\<rparr>"
      "[RestartOp \<lparr>kill1_raises = False, kill2_raises = False,
                      teacher_launch = StaysUp, student_launch = ExitsEarly\<rparr>, Stop]"
      "\<lparr>kill1_raises = False, kill2_raises = False,
       teacher_launch = StaysUp, student_launch = ExitsEarly\<rparr>" "[]" 0 0
      "((cloud_init 0, []), ws_init 0 0)" "[]" "(cloud_init 0, [])" "ibot_init 0 0 8080"]
  by (simp add: keeper_init_def cloud_init_def)

text \<open>
  The claim as stated fails on run_bots_24x7_integrated.py: both bots are polling, the
  teacher's \<^verbatim>\<open>polling\<close> returns, the next pass of the monitor restarts the teacher bot, and
  the restart counter an observer reads is 0 before and 0 after.
\<close>

theorem integrated_restart_is_not_counted:
  "Restarting [Teacher] \<in> set (snd (ibot_monitor_iteration
       \<lparr>teacher_fate = Returned, student_fate = Unchanged, is_alive_raises = False,
        teacher_relaunch = Polling, student_relaunch = Polling\<rparr>
       (fst (ibot_start Polling Polling (ibot_init 0 0 8080, []))))) \<and>
   observed_restart_count
     (ibot_health (fst (fst (ibot_start Polling Polling (ibot_init 0 0 8080, [])))) 1 1) = JNum 0 \<and>
   observed_restart_count
     (ibot_health (fst (fst (ibot_monitor_iteration
       \<lparr>teacher_fate = Returned, student_fate = Unchanged, is_alive_raises = False,
        teacher_relaunch = Polling, student_relaunch = Polling\<rparr>
       (fst (ibot_start Polling Polling (ibot_init 0 0 8080, [])))))) 2 2) = JNum 0"
  by (simp add: ibot_monitor_iteration_def ibot_start_def ibot_init_def
      start_teacher_bot_thread_def start_student_bot_thread_def restart_teacher_bot_def
      restart_student_bot_def teacher_fate_step_def student_fate_step_def thread_alive_def
      ibot_health_def observed_restart_count_def jsonify_def dict_get_def Let_def)


section \<open>A liveness check that raises\<close>

lemma monitor_bots_loop_Cons:
  "monitor_bots_loop h (e # es) sw =
     (if keeper.running (fst sw) then
        (if ended (snd (monitor_iteration h e sw)) then monitor_iteration h e sw
         else
          (fst (monitor_bots_loop h es (fst (monitor_iteration h e sw))),
           snd (monitor_iteration h e sw) @
           snd (monitor_bots_loop h es (fst (monitor_iteration h e sw)))))
      else (sw, []))"
  by (simp split: prod.splits)

lemma monitor_bots_Cons:
  "monitor_bots h (e # es) sw =
     (if cloud.running (fst sw) then
        (if ended (snd (cloud_monitor_iteration h e sw)) then cloud_monitor_iteration h e sw
         else
          (fst (monitor_bots h es (fst (cloud_monitor_iteration h e sw))),
           snd (cloud_monitor_iteration h e sw) @
           snd (monitor_bots h es (fst (cloud_monitor_iteration h e sw)))))
      else (sw, []))"
  by (simp split: prod.splits)

lemma monitor_iteration_raises:
  "check_raises e \<Longrightarrow>
   monitor_iteration h e (s, w) = ((s, procs_exit w (exited e)), [Logged ''Monitor error'', Slept 60])"
  by (simp add: monitor_iteration_def Let_def)

lemma cloud_monitor_iteration_raises:
  "check_raises e \<Longrightarrow>
   cloud_monitor_iteration h e (s, w) =
     ((s, procs_exit w (exited e)), [Logged ''Error in monitor loop'', Slept 60])"
  by (simp add: cloud_monitor_iteration_def Let_def)

text \<open>
  Claim C7. When the liveness check of one pass of the monitor loop raises, the pass logs
  the error and sleeps 60 seconds: its trace has no restart and no launch, the supervisor's
  state with its \<^verbatim>\<open>restart_count\<close> is unchanged, and the loop, if still running, goes on with
  the next pass from that state. This holds in keep_bot_alive_24x7.py and in
  run_cloud_24_7.py.
\<close>

theorem monitor_survives_failed_check:
  "check_raises e \<Longrightarrow>
   (monitor_iteration h e (s, w) =
      ((s, procs_exit w (exited e)), [Logged ''Monitor error'', Slept 60]) \<and>
    keeper.restart_count (fst (fst (monitor_iteration h e (s, w)))) = keeper.restart_count s \<and>
    (keeper.running s \<longrightarrow>
       monitor_bots_loop h (e # es) (s, w) =
         (fst (monitor_bots_loop h es (s, procs_exit w (exited e))),
          [Logged ''Monitor error'', Slept 60] @
          snd (monitor_bots_loop h es (s, procs_exit w (exited e)))))) \<and>
   (cloud_monitor_iteration h e (c, w) =
      ((c, procs_exit w (exited e)), [Logged ''Error in monitor loop'', Slept 60]) \<and>
    cloud.restart_count (fst (fst (cloud_monitor_iteration h e (c, w)))) = cloud.restart_count c \<and>
    (cloud.running c \<longrightarrow>
       monitor_bots h (e # es) (c, w) =
         (fst (monitor_bots h es (c, procs_exit w (exited e))),
          [Logged ''Error in monitor loop'', Slept 60] @
          snd (monitor_bots h es (c, procs_exit w (exited e))))))"
  by (simp add: monitor_bots_loop_Cons monitor_bots_Cons monitor_iteration_raises
      cloud_monitor_iteration_raises ended_def del: monitor_bots_loop.simps monitor_bots.simps)

theorem monitor_survives_failed_check_witness:
  "check_raises \<lparr>exited = [], check_raises = True,
       renv = \<lparr>kill1_raises = False, kill2_raises = False,
               teacher_launch = StaysUp, student_launch = StaysUp\<rparr>\<rparr> \<and>
   keeper.running (keeper_init 0 0 8080) \<and>
   monitor_bots_loop \<lparr>os_name = ''posix'', sys_executable = ''python3''\<rparr>
     [\<lparr>exited = [], check_raises = True,
       renv = \<lparr>kill1_raises = False, kill2_raises = False,
               teacher_launch = StaysUp, student_launch = StaysUp\<rparr>\<rparr>,
      \<lparr>exited = [], check_raises = False,
       renv = \<lparr>kill1_raises = False, kill2_raises = False,
               teacher_launch = StaysUp, student_launch = StaysUp\<rparr>\<rparr>]
     (keeper_init 0 0 8080, []) =
   (fst (monitor_bots_loop \<lparr>os_name = ''posix'', sys_executable = ''python3''\<rparr>
     [\<lparr>exited = [], check_raises = False,
       renv = \<lparr>kill1_raises = False, kill2_raises = False,
               teacher_launch = StaysUp, student_launch = StaysUp\<rparr>\<rparr>]
     (keeper_init 0 0 8080, [])),
    [Logged ''Monitor error'', Slept 60] @
    snd (monitor_bots_loop \<lparr>os_name = ''posix'', sys_executable = ''python3''\<rparr>
     [\<lparr>exited = [], check_raises = False,
       renv = \<lparr>kill1_raises = False, kill2_raises = False,
               teacher_launch = StaysUp, student_launch = StaysUp\<rparr>\<rparr>]
     (keeper_init 0 0 8080, []))) \<and>
   cloud.running (cloud_init 0) \<and>
   cloud_monitor_iteration \<lparr>os_name = ''posix'', sys_executable = ''python3''\<rparr>
     \<lparr>exited = [], check_raises = True,
       renv = \<lparr>kill1_raises = False, kill2_raises = False,
               teacher_launch = StaysUp, student_launch = StaysUp\<rparr>\<rparr> (cloud_init 0, []) =
     ((cloud_init 0, []), [Logged ''Error in monitor loop'', Slept 60])"
  using monitor_survives_failed_check
    [of "\<lparr>exited = [], check_raises = True,
       renv = \<lparr>kill1_raises = False, kill2_raises = False,
               teacher_launch = StaysUp, student_launch = StaysUp\<rparr>\<rparr>"
      "\<lparr>os_name = ''posix'', sys_executable = ''python3''\<rparr>" "keeper_init 0 0 8080" "[]"
      "[\<lparr>exited = [], check_raises = False,
       renv = \<lparr>kill1_raises = False, kill2_raises = False,
               teacher_launch = StaysUp, student_launch = StaysUp\<rparr>\<rparr>]" "cloud_init 0"]
  by (simp add: keeper_init_def cloud_init_def procs_exit_def del: monitor_bots_loop.simps monitor_bots.simps)


section \<open>The HTTP routes\<close>

lemma ws_handle_state:
  "path r \<noteq> KeepAlive \<Longrightarrow> fst (ws_handle r g) = g"
  by (cases "path r") (simp_all add: ws_handle_def)

lemma ibot_handle_state:
  "path r \<noteq> KeepAlive \<Longrightarrow> fst (ibot_handle r i) = i"
  by (cases "path r") (simp_all add: ibot_handle_def)

lemma keeper_handle_read_only:
  "path r \<noteq> KeepAlive \<Longrightarrow> path r \<noteq> RestartBots \<Longrightarrow> fst (keeper_handle h r sw) = sw"
  by (cases "path r") (simp_all add: keeper_handle_state)

lemma keeper_handle_restart:
  "path r = RestartBots \<Longrightarrow>
   fst (keeper_handle h r sw) = fst (restart_bots h (req_env r) sw) \<and>
   keeper.restart_count (fst (fst (keeper_handle h r sw))) = keeper.restart_count (fst sw) + 1"
  by (simp add: keeper_handle_state restart_bots_frame)

text \<open>
  Claim C4, as amended. The routes \<^verbatim>\<open>/\<close>, \<^verbatim>\<open>/health\<close> and \<^verbatim>\<open>/ping\<close> leave the whole state
  (counters, times, worker handles, process table) as it was, in every server; webserver.py
  and run_bots_24x7_integrated.py expose no other route besides \<^verbatim>\<open>/keep-alive\<close>.
  keep_bot_alive_24x7.py also exposes \<^verbatim>\<open>/restart-bots\<close>, whose effect on the state is that of
  one call of \<^verbatim>\<open>restart_bots\<close>, which adds exactly one to \<^verbatim>\<open>restart_count\<close>.
\<close>

theorem read_only_routes:
  "(path r \<noteq> KeepAlive \<and> path r \<noteq> RestartBots \<longrightarrow> fst (keeper_handle h r sw) = sw) \<and>
   (path r = RestartBots \<longrightarrow>
      fst (keeper_handle h r sw) = fst (restart_bots h (req_env r) sw) \<and>
      keeper.restart_count (fst (fst (keeper_handle h r sw))) = keeper.restart_count (fst sw) + 1) \<and>
   (path r \<noteq> KeepAlive \<longrightarrow> fst (ws_handle r g) = g) \<and>
   (path r \<noteq> KeepAlive \<longrightarrow> cloud_step h (CRequest r) (cw, g) = (cw, g)) \<and>
   (path r \<noteq> KeepAlive \<longrightarrow> fst (ibot_handle r i) = i)"
  by (simp add: keeper_handle_read_only keeper_handle_restart restart_bots_frame
      ws_handle_state ibot_handle_state cloud_step_def)

theorem read_only_routes_witness:
  "path \<lparr>path = Health, clock1 = 1, clock2 = 2,
         req_env = \<lparr>kill1_raises = False, kill2_raises = False,
                    teacher_launch = StaysUp, student_launch = StaysUp\<rparr>\<rparr> \<noteq> KeepAlive \<and>
   fst (keeper_handle \<lparr>os_name = ''posix'', sys_executable = ''python3''\<rparr>
     \<lparr>path = Health, clock1 = 1, clock2 = 2,
         req_env = \<lparr>kill1_raises = False, kill2_raises = False,
                    teacher_launch = StaysUp, student_launch = StaysUp\<rparr>\<rparr>
     (keeper_init 0 0 8080, [])) = (keeper_init 0 0 8080, []) \<and>
   fst (ws_handle \<lparr>path = Health, clock1 = 1, clock2 = 2,
         req_env = \<lparr>kill1_raises = False, kill2_raises = False,
                    teacher_launch = StaysUp, student_launch = StaysUp\<rparr>\<rparr> (ws_init 0 0)) =
     ws_init 0 0 \<and>
   fst (ibot_handle \<lparr>path = Health, clock1 = 1, clock2 = 2,
         req_env = \<lparr>kill1_raises = False, kill2_raises = False,
                    teacher_launch = StaysUp, student_launch = StaysUp\<rparr>\<rparr> (ibot_init 0 0 8080)) =
     ibot_init 0 0 8080"
  using read_only_routes
    [of "\<lparr>path = Health, clock1 = 1, clock2 = 2,
         req_env = \<lparr>kill1_raises = False, kill2_raises = False,
                    teacher_launch = StaysUp, student_launch = StaysUp\<rparr>\<rparr>"
      "\<lparr>os_name = ''posix'', sys_executable = ''python3''\<rparr>" "(keeper_init 0 0 8080, [])"
      "ws_init 0 0" "(cloud_init 0, [])" "ibot_init 0 0 8080"]
  by simp

text \<open>
  The claim as stated fails on keep_bot_alive_24x7.py: a request to \<^verbatim>\<open>/restart-bots\<close>, a
  route other than \<^verbatim>\<open>/keep-alive\<close>, on the fresh state raises \<^verbatim>\<open>restart_count\<close> from 0 to 1
  and stores new worker handles.
\<close>

theorem restart_route_has_effects:
  "keeper.restart_count (keeper_init 0 0 8080) = 0 \<and>
   keeper.teacher_process (keeper_init 0 0 8080) = None \<and>
   keeper.restart_count (fst (fst (keeper_handle \<lparr>os_name = ''posix'', sys_executable = ''python3''\<rparr>
     \<lparr>path = RestartBots, clock1 = 1, clock2 = 2,
      req_env = \<lparr>kill1_raises = False, kill2_raises = False,
                 teacher_launch = StaysUp, student_launch = StaysUp\<rparr>\<rparr>
     (keeper_init 0 0 8080, [])))) = 1 \<and>
   keeper.teacher_process (fst (fst (keeper_handle \<lparr>os_name = ''posix'', sys_executable = ''python3''\<rparr>
     \<lparr>path = RestartBots, clock1 = 1, clock2 = 2,
      req_env = \<lparr>kill1_raises = False, kill2_raises = False,
                 teacher_launch = StaysUp, student_launch = StaysUp\<rparr>\<rparr>
     (keeper_init 0 0 8080, [])))) = Some 0"
  by (simp add: keeper_handle_def restart_bots_endpoint_def restart_bots_def
      kill_existing_bots_def start_teacher_bot_def start_student_bot_def popen_def pkill_f_def
      pkill_matches_def command_line_def supervisor_def ended_def keeper_init_def Let_def)

lemma health_status:
  "body_field (health s w t1 t2) ''status'' =
     Some (JStr (if fst (check_bots_health s w) = JBool True \<and>
                    snd (check_bots_health s w) = JBool True
                 then ''healthy'' else ''partial''))"
  by (cases "keeper.teacher_process s"; cases "keeper.student_process s")
     (simp_all add: health_def body_field_def jsonify_def check_bots_health_def proc_alive_def
        py_and_def Let_def)

lemma ibot_health_status:
  "body_field (ibot_health i t1 t2) ''status'' =
     Some (JStr (if teacher_running i \<and> student_running i then ''healthy'' else ''partial''))"
  by (simp add: ibot_health_def body_field_def jsonify_def Let_def)

lemma ws_health_status:
  "body_field (ws_health g t1 t2) ''status'' = Some (JStr ''healthy'')"
  by (simp add: ws_health_def body_field_def jsonify_def Let_def)

text \<open>
  Claim C2, as amended. \<^verbatim>\<open>/health\<close> of keep_bot_alive_24x7.py answers \<^verbatim>\<open>healthy\<close> exactly when
  the liveness check of both worker processes is true, and \<^verbatim>\<open>partial\<close> otherwise, whichever
  worker is the dead one; \<^verbatim>\<open>/health\<close> of run_bots_24x7_integrated.py does the same on the two
  running flags. \<^verbatim>\<open>/health\<close> of webserver.py, which serves the supervisor of
  run_cloud_24_7.py, answers \<^verbatim>\<open>healthy\<close> in every state of that supervisor and its workers.
  All three answer with status 200.
\<close>

theorem health_status_of_each_server:
  "body_field (health s w t1 t2) ''status'' =
     Some (JStr (if fst (check_bots_health s w) = JBool True \<and>
                    snd (check_bots_health s w) = JBool True
                 then ''healthy'' else ''partial'')) \<and>
   status_code (health s w t1 t2) = 200 \<and>
   body_field (ibot_health i t1 t2) ''status'' =
     Some (JStr (if teacher_running i \<and> student_running i then ''healthy'' else ''partial'')) \<and>
   status_code (ibot_health i t1 t2) = 200 \<and>
   body_field (cloud_system_health x t1 t2) ''status'' = Some (JStr ''healthy'') \<and>
   status_code (cloud_system_health x t1 t2) = 200"
  by (simp add: health_status ibot_health_status ws_health_status cloud_system_health_def)
     (simp add: health_def ibot_health_def ws_health_def jsonify_def Let_def)

theorem health_status_of_each_server_witness:
  "body_field (health (keeper_init 0 0 8080) [] 1 2) ''status'' = Some (JStr ''partial'') \<and>
   body_field (ibot_health ((ibot_init 0 0 8080)\<lparr>teacher_running := True,
      student_running := True\<rparr>) 1 2) ''status'' = Some (JStr ''healthy'') \<and>
   body_field (cloud_system_health ((cloud_init 0, []), ws_init 0 0) 1 2) ''status'' =
     Some (JStr ''healthy'')"
  using health_status_of_each_server [of "keeper_init 0 0 8080" "[]" 1 2
      "(ibot_init 0 0 8080)\<lparr>teacher_running := True, student_running := True\<rparr>"
      "((cloud_init 0, []), ws_init 0 0)"]
  by (simp add: keeper_init_def check_bots_health_def proc_alive_def)

text \<open>
  The claim as stated fails on the system of run_cloud_24_7.py: the manager starts both
  bots, then the teacher process (pid 0) exits; the manager's liveness check finds the
  teacher dead, and \<^verbatim>\<open>/health\<close>, answered by webserver.py, still says \<^verbatim>\<open>healthy\<close>.
\<close>

theorem cloud_health_ignores_dead_worker:
  "check_bot_health
     (fst (fst (cloud_run \<lparr>os_name = ''posix'', sys_executable = ''python3''\<rparr>
        [CStart \<lparr>kill1_raises = False, kill2_raises = False,
                 teacher_launch = StaysUp, student_launch = StaysUp\<rparr>, CProcsExit [0]]
        ((cloud_init 0, []), ws_init 0 0))))
     (snd (fst (cloud_run \<lparr>os_name = ''posix'', sys_executable = ''python3''\<rparr>
        [CStart \<lparr>kill1_raises = False, kill2_raises = False,
                 teacher_launch = StaysUp, student_launch = StaysUp\<rparr>, CProcsExit [0]]
        ((cloud_init 0, []), ws_init 0 0)))) = (JBool False, JBool True) \<and>
   body_field
     (cloud_system_health (cloud_run \<lparr>os_name = ''posix'', sys_executable = ''python3''\<rparr>
        [CStart \<lparr>kill1_raises = False, kill2_raises = False,
                 teacher_launch = StaysUp, student_launch = StaysUp\<rparr>, CProcsExit [0]]
        ((cloud_init 0, []), ws_init 0 0)) 5 6) ''status'' = Some (JStr ''healthy'')"
  by (simp add: cloud_run_def cloud_step_def cloud_start_def cloud_kill_existing_bots_def
      cloud_start_teacher_bot_def cloud_start_student_bot_def popen_def pkill_f_def
      pkill_matches_def command_line_def supervisor_def ended_def procs_exit_def proc_exit_def check_bot_health_def proc_alive_def poll_is_None_def
      cloud_init_def cloud_system_health_def ws_health_def ws_init_def body_field_def
      jsonify_def Let_def)

text \<open>
  Claim C6, as amended. In every server \<^verbatim>\<open>/keep-alive\<close> answers 200 with a JSON object whose
  \<^verbatim>\<open>status\<close> is \<^verbatim>\<open>alive\<close> and which has the fields \<^verbatim>\<open>message\<close>, \<^verbatim>\<open>ping_count\<close> and \<^verbatim>\<open>timestamp\<close>,
  whatever the state of the workers. The fields are exactly those and \<^verbatim>\<open>uptime\<close> in
  keep_bot_alive_24x7.py; webserver.py has no \<^verbatim>\<open>uptime\<close>; run_bots_24x7_integrated.py adds
  \<^verbatim>\<open>uptime\<close>, \<^verbatim>\<open>teacher_running\<close> and \<^verbatim>\<open>student_running\<close>.
\<close>

theorem keep_alive_answers:
  "(status_code (snd (keep_alive s t1 t2)) = 200 \<and>
    body_fields (snd (keep_alive s t1 t2)) =
      [''status'', ''message'', ''ping_count'', ''timestamp'', ''uptime''] \<and>
    body_field (snd (keep_alive s t1 t2)) ''status'' = Some (JStr ''alive'')) \<and>
   (status_code (snd (ws_keep_alive_endpoint g t1)) = 200 \<and>
    body_fields (snd (ws_keep_alive_endpoint g t1)) =
      [''status'', ''message'', ''ping_count'', ''timestamp''] \<and>
    body_field (snd (ws_keep_alive_endpoint g t1)) ''status'' = Some (JStr ''alive'')) \<and>
   (status_code (snd (ibot_keep_alive i t1 t2)) = 200 \<and>
    body_fields (snd (ibot_keep_alive i t1 t2)) =
      [''status'', ''message'', ''ping_count'', ''timestamp'', ''uptime'', ''teacher_running'',
       ''student_running''] \<and>
    body_field (snd (ibot_keep_alive i t1 t2)) ''status'' = Some (JStr ''alive''))"
  by (simp add: keep_alive_def ws_keep_alive_endpoint_def ibot_keep_alive_def jsonify_def
      body_fields_def body_field_def Let_def)

theorem keep_alive_answers_witness:
  "body_fields (snd (keep_alive (keeper_init 0 0 8080) 1 2)) =
      [''status'', ''message'', ''ping_count'', ''timestamp'', ''uptime''] \<and>
   body_field (snd (ws_keep_alive_endpoint (ws_init 0 0) 1)) ''status'' = Some (JStr ''alive'') \<and>
   status_code (snd (ibot_keep_alive (ibot_init 0 0 8080) 1 2)) = 200"
  using keep_alive_answers [of "keeper_init 0 0 8080" 1 2 "ws_init 0 0" "ibot_init 0 0 8080"]
  by simp

text \<open>
  The claim as stated fails on two servers: the answer of webserver.py has no \<^verbatim>\<open>uptime\<close>
  field, and the answer of run_bots_24x7_integrated.py has a \<^verbatim>\<open>teacher_running\<close> field.
\<close>

theorem keep_alive_fields_differ:
  "''uptime'' \<notin> set (body_fields (snd (ws_keep_alive_endpoint (ws_init 0 0) 1))) \<and>
   ''teacher_running'' \<in> set (body_fields (snd (ibot_keep_alive (ibot_init 0 0 8080) 1 2)))"
  by (simp add: ws_keep_alive_endpoint_def ibot_keep_alive_def jsonify_def body_fields_def Let_def)


section \<open>The external pingers: exit codes and success rates\<close>

lemma check_health_iff: "check_health r = (\<exists>kvs. r = Got 200 (Some (JObj kvs)))"
  by (auto simp: check_health_def as_dict_def split: get_result.splits option.splits json.splits)

lemma ping_service_iff: "snd (ping_service m r) = (\<exists>kvs. r = Got 200 (Some (JObj kvs)))"
  by (auto simp: ping_service_def as_dict_def Let_def
      split: get_result.splits option.splits json.splits)

lemma ping_bot_iff: "ping_bot r = (\<exists>kvs. r = Got 200 (Some (JObj kvs)))"
  by (auto simp: ping_bot_def as_dict_def split: get_result.splits option.splits json.splits)

lemma pinger_check_health_iff:
  "truthy (pinger_check_health r) =
     (\<exists>kvs. r = Got 200 (Some (JObj kvs)) \<and>
            truthy (dict_get kvs ''teacher_bot_running'' (JBool False)) \<and>
            truthy (dict_get kvs ''student_bot_running'' (JBool False)))"
  by (auto simp: pinger_check_health_def as_dict_def py_and_def
      split: get_result.splits option.splits json.splits)

text \<open>
  Claim C8, as amended. external_keepalive_monitor.py in \<^verbatim>\<open>once\<close> mode (with no interval
  argument, or one that \<^verbatim>\<open>int()\<close> accepts) exits with code 0 exactly when both the
  \<^verbatim>\<open>/health\<close> and the \<^verbatim>\<open>/keep-alive\<close> request return HTTP 200 with a body that decodes to a
  JSON object, and with code 1 otherwise. The single test of simple_external_pinger.py
  (interval 0) exits with code 0 exactly when, in addition, the \<^verbatim>\<open>/health\<close> body reports
  both \<^verbatim>\<open>teacher_bot_running\<close> and \<^verbatim>\<open>student_bot_running\<close> as true, and with code 1 otherwise.
\<close>

theorem single_check_exit_code:
  "(2 < length argv \<and> argv ! 2 = ''once'' \<and>
      (length argv = 3 \<or> py_int (argv ! 3) \<noteq> None) \<longrightarrow>
    monitor_main py_int argv t health_r ping_r =
      (if (\<exists>kvs. health_r = Got 200 (Some (JObj kvs))) \<and>
          (\<exists>kvs. ping_r = Got 200 (Some (JObj kvs)))
       then Exit 0 else Exit 1)) \<and>
   (2 < length argv \<and> py_int (argv ! 2) = Some 0 \<longrightarrow>
    pinger_main py_int argv health_r ping_r =
      (if (\<exists>kvs. health_r = Got 200 (Some (JObj kvs)) \<and>
                  truthy (dict_get kvs ''teacher_bot_running'' (JBool False)) \<and>
                  truthy (dict_get kvs ''student_bot_running'' (JBool False))) \<and>
          (\<exists>kvs. ping_r = Got 200 (Some (JObj kvs)))
       then Exit 0 else Exit 1))"
proof (intro conjI impI)
  assume a: "2 < length argv \<and> argv ! 2 = ''once'' \<and>
      (length argv = 3 \<or> py_int (argv ! 3) \<noteq> None)"
  then obtain i where "(if length argv > 3 then py_int (argv ! 3) else Some 5) = Some i"
    by (cases "length argv > 3") auto
  with a show "monitor_main py_int argv t health_r ping_r =
      (if (\<exists>kvs. health_r = Got 200 (Some (JObj kvs))) \<and>
          (\<exists>kvs. ping_r = Got 200 (Some (JObj kvs)))
       then Exit 0 else Exit 1)"
    by (simp add: monitor_main_def run_once_def Let_def check_health_iff ping_service_iff
        split: prod.splits)
       (metis ping_service_iff snd_conv)
next
  assume "2 < length argv \<and> py_int (argv ! 2) = Some 0"
  then show "pinger_main py_int argv health_r ping_r =
      (if (\<exists>kvs. health_r = Got 200 (Some (JObj kvs)) \<and>
                  truthy (dict_get kvs ''teacher_bot_running'' (JBool False)) \<and>
                  truthy (dict_get kvs ''student_bot_running'' (JBool False))) \<and>
          (\<exists>kvs. ping_r = Got 200 (Some (JObj kvs)))
       then Exit 0 else Exit 1)"
    by (simp add: pinger_main_def Let_def pinger_check_health_iff ping_bot_iff)
qed

theorem single_check_exit_code_witness:
  "monitor_main (\<lambda>s. None) [''external_keepalive_monitor.py'', ''https://bot.example/'', ''once'']
     0 (Got 200 (Some (JObj [(''status'', JStr ''healthy'')])))
       (Got 200 (Some (JObj [(''status'', JStr ''alive'')]))) = Exit 0 \<and>
   pinger_main (\<lambda>s. if s = ''0'' then Some 0 else None)
     [''simple_external_pinger.py'', ''https://bot.example/'', ''0'']
     (Got 200 (Some (JObj [(''teacher_bot_running'', JBool True),
                           (''student_bot_running'', JBool False)])))
     (Got 200 (Some (JObj [(''status'', JStr ''alive'')]))) = Exit 1"
  using
    single_check_exit_code [of "[''external_keepalive_monitor.py'', ''https://bot.example/'', ''once'']"
      "\<lambda>s. None" 0 "Got 200 (Some (JObj [(''status'', JStr ''healthy'')]))"
      "Got 200 (Some (JObj [(''status'', JStr ''alive'')]))"]
    single_check_exit_code [of "[''simple_external_pinger.py'', ''https://bot.example/'', ''0'']"
      "\<lambda>s. if s = ''0'' then Some 0 else None" 0
      "Got 200 (Some (JObj [(''teacher_bot_running'', JBool True),
                            (''student_bot_running'', JBool False)]))"
      "Got 200 (Some (JObj [(''status'', JStr ''alive'')]))"]
  by (simp add: dict_get_def)

text \<open>
  The claim as stated fails on simple_external_pinger.py: run as a single test against
  the server of webserver.py, both \<^verbatim>\<open>/health\<close> and \<^verbatim>\<open>/keep-alive\<close> return HTTP 200, and the
  pinger exits with code 1, because that \<^verbatim>\<open>/health\<close> body has no \<^verbatim>\<open>teacher_bot_running\<close> field.
\<close>

theorem pinger_exits_1_on_two_200s:
  "status_code (ws_health (ws_init 0 0) 1 2) = 200 \<and>
   status_code (snd (ws_keep_alive_endpoint (ws_init 0 0) 3)) = 200 \<and>
   pinger_main (\<lambda>s. if s = ''0'' then Some 0 else None)
     [''simple_external_pinger.py'', ''http://localhost:8080'', ''0'']
     (received (ws_health (ws_init 0 0) 1 2))
     (received (snd (ws_keep_alive_endpoint (ws_init 0 0) 3))) = Exit 1"
  by (simp add: pinger_main_def pinger_check_health_def ping_bot_def as_dict_def received_def
      ws_health_def ws_keep_alive_endpoint_def ws_init_def jsonify_def dict_get_def py_and_def
      Let_def)

lemma truediv_positive: "0 < b \<Longrightarrow> \<exists>q. truediv a b = Inr q"
  by (simp add: truediv_def)

lemma print_stats_safe: "\<exists>q. print_stats m = Inr q"
  by (simp add: print_stats_def truediv_def)

lemma final_stats_safe: "\<exists>q. final_stats c = Inr q"
  by (simp add: final_stats_def truediv_def)

lemma run_continuous_safe: "\<exists>m'. run_continuous sleep_max interval rs m = Inr m'"
proof (induction rs arbitrary: m)
  case Nil
  from print_stats_safe [of m] show ?case by auto
next
  case (Cons r rs)
  obtain q where q: "print_stats (fst (ping_service m (fst r))) = Inr q"
    using print_stats_safe by blast
  show ?case
    using Cons.IH [of "fst (ping_service m (fst r))"] q
    by (simp add: Let_def split: option.splits)
qed

lemma pinger_loop_safe:
  "0 \<le> fst c \<Longrightarrow> pinger_loop sleep_max interval rs c \<noteq> Inl ZeroDivisionError"
proof (induction rs arbitrary: c)
  case Nil
  show ?case by simp
next
  case (Cons r rs)
  let ?c' = "(fst c + 1, if ping_bot (fst r) then snd c + 1 else snd c)"
  from Cons.prems have pos: "fst c + 1 \<noteq> 0" by simp
  from Cons.prems have "0 \<le> fst ?c'" by simp
  from Cons.IH [OF this] pos show ?case
    by (simp add: Let_def truediv_def py_sleep_def)
qed

lemma pinger_loop_result:
  "0 \<le> interval \<Longrightarrow> interval * 60 \<le> sleep_max \<Longrightarrow> 0 \<le> fst c \<Longrightarrow>
   pinger_loop sleep_max interval rs c =
     Inr (fst c + int (length rs), snd c + int (length (filter ping_bot (map fst rs))))"
proof (induction rs arbitrary: c)
  case Nil
  show ?case by simp
next
  case (Cons r rs)
  let ?c' = "(fst c + 1, if ping_bot (fst r) then snd c + 1 else snd c)"
  from Cons.prems have pos: "fst c + 1 \<noteq> 0" by simp
  from Cons.prems have "0 \<le> fst ?c'" by simp
  from Cons.IH [OF Cons.prems(1,2) this] pos Cons.prems(1,2) show ?case
    by (simp add: Let_def truediv_def py_sleep_def)
qed

lemma pinger_loop_sleep_raises:
  "rs \<noteq> [] \<Longrightarrow> py_sleep sleep_max (interval * 60) = Some e \<Longrightarrow>
   pinger_loop sleep_max interval rs (0, 0) = Inl e"
  by (cases rs) (simp_all add: Let_def)

text \<open>
  Claim C10. No success-rate computation of the pingers divides by zero. In
  simple_external_pinger.py the loop started with both counters at 0 never raises
  \<^verbatim>\<open>ZeroDivisionError\<close> (its unguarded division runs after the increment, on a positive
  \<^verbatim>\<open>ping_count\<close>), and the interrupt handler's guarded division is safe on any counters;
  with an interval that \<^verbatim>\<open>time.sleep\<close> accepts the loop completes every pass, and with one
  that is negative or too large the first pass ends in the error of \<^verbatim>\<open>time.sleep\<close>. In
  external_keepalive_monitor.py \<^verbatim>\<open>print_stats\<close> is guarded and safe on any counters, and so
  is \<^verbatim>\<open>run_continuous\<close>.
\<close>

theorem success_rate_never_divides_by_zero:
  "pinger_loop sleep_max interval rs (0, 0) \<noteq> Inl ZeroDivisionError \<and>
   (0 \<le> interval \<and> interval * 60 \<le> sleep_max \<longrightarrow>
      pinger_loop sleep_max interval rs (0, 0) =
        Inr (int (length rs), int (length (filter ping_bot (map fst rs))))) \<and>
   (rs \<noteq> [] \<and> interval < 0 \<longrightarrow>
      pinger_loop sleep_max interval rs (0, 0) = Inl ValueError) \<and>
   (rs \<noteq> [] \<and> 0 \<le> interval \<and> sleep_max < interval * 60 \<longrightarrow>
      pinger_loop sleep_max interval rs (0, 0) = Inl OverflowError) \<and>
   final_stats c \<noteq> Inl ZeroDivisionError \<and>
   print_stats m \<noteq> Inl ZeroDivisionError \<and>
   run_continuous sleep_max interval rs m \<noteq> Inl ZeroDivisionError"
proof (intro conjI impI)
  show "pinger_loop sleep_max interval rs (0, 0) \<noteq> Inl ZeroDivisionError"
    by (rule pinger_loop_safe) simp
  show "pinger_loop sleep_max interval rs (0, 0) =
        Inr (int (length rs), int (length (filter ping_bot (map fst rs))))"
    if "0 \<le> interval \<and> interval * 60 \<le> sleep_max"
    using pinger_loop_result [of interval sleep_max "(0, 0)" rs] that by simp
  show "pinger_loop sleep_max interval rs (0, 0) = Inl ValueError"
    if "rs \<noteq> [] \<and> interval < 0"
    using that by (intro pinger_loop_sleep_raises) (simp_all add: py_sleep_def)
  show "pinger_loop sleep_max interval rs (0, 0) = Inl OverflowError"
    if "rs \<noteq> [] \<and> 0 \<le> interval \<and> sleep_max < interval * 60"
    using that by (intro pinger_loop_sleep_raises) (simp_all add: py_sleep_def)
  show "final_stats c \<noteq> Inl ZeroDivisionError"
    using final_stats_safe [of c] by auto
  show "print_stats m \<noteq> Inl ZeroDivisionError"
    using print_stats_safe [of m] by auto
  show "run_continuous sleep_max interval rs m \<noteq> Inl ZeroDivisionError"
    using run_continuous_safe [of sleep_max interval rs m] by auto
qed

theorem success_rate_never_divides_by_zero_witness:
  "(0::int) \<le> 5 \<and> (5::int) * 60 \<le> 9223372036 \<and>
   pinger_loop 9223372036 5
     [(Got 200 (Some (JObj [])), Timeout), (Timeout, Timeout),
      (Got 200 (Some (JObj [])), Timeout), (Got 500 None, Timeout),
      (Got 200 (Some (JObj [])), Timeout), (Got 200 (Some (JObj [])), Timeout)]
     (0, 0) = Inr (6, 4) \<and>
   final_stats (0, 0) \<noteq> Inl ZeroDivisionError \<and>
   print_stats (monitor_init ''https://bot.example/'' 0) \<noteq> Inl ZeroDivisionError"
  using success_rate_never_divides_by_zero [of 9223372036 5
      "[(Got 200 (Some (JObj [])), Timeout), (Timeout, Timeout),
        (Got 200 (Some (JObj [])), Timeout), (Got 500 None, Timeout),
        (Got 200 (Some (JObj [])), Timeout), (Got 200 (Some (JObj [])), Timeout)]"
      "(0, 0)" "monitor_init ''https://bot.example/'' 0"]
  by (simp add: ping_bot_def as_dict_def del: pinger_loop.simps)

section \<open>One death restarts both bots\<close>










lemma taskkill_matches_exe:
  "exe p = exe p' \<Longrightarrow> taskkill_matches img p = taskkill_matches img p'"
  by (simp add: taskkill_matches_def)















lemma start_teacher_bot_result:
  "snd (start_teacher_bot h l sw) =
     (case l of
        PopenRaises \<Rightarrow> ([Logged ''Starting Teacher Bot...'', Launching Teacher,
                         Launch Teacher False, Logged ''Error starting Teacher Bot''], False)
      | ExitsEarly \<Rightarrow> ([Logged ''Starting Teacher Bot...'', Launching Teacher, Slept 5,
                        Launch Teacher False, Logged ''Teacher Bot failed to start''], False)
      | StaysUp \<Rightarrow> ([Logged ''Starting Teacher Bot...'', Launching Teacher, Slept 5,
                     Launch Teacher True, Logged ''Teacher Bot started successfully''], True))"
  by (cases sw; cases l; simp add: start_teacher_bot_def popen_def)

lemma start_student_bot_result:
  "snd (start_student_bot h l sw) =
     (case l of
        PopenRaises \<Rightarrow> ([Logged ''Starting Student Bot...'', Launching Student,
                         Launch Student False, Logged ''Error starting Student Bot''], False)
      | ExitsEarly \<Rightarrow> ([Logged ''Starting Student Bot...'', Launching Student, Slept 5,
                        Launch Student False, Logged ''Student Bot failed to start''], False)
      | StaysUp \<Rightarrow> ([Logged ''Starting Student Bot...'', Launching Student, Slept 5,
                     Launch Student True, Logged ''Student Bot started successfully''], True))"
  by (cases sw; cases l; simp add: start_student_bot_def popen_def)



lemma restart_bots_result:
  "snd (restart_bots h e sw) =
     (if ended (snd (kill_existing_bots h (kill1_raises e) (kill2_raises e) (snd sw)))
      then ([Restarting [Teacher, Student], Logged ''Restarting bots''] @
            snd (kill_existing_bots h (kill1_raises e) (kill2_raises e) (snd sw)), None)
      else ([Restarting [Teacher, Student], Logged ''Restarting bots''] @
            snd (kill_existing_bots h (kill1_raises e) (kill2_raises e) (snd sw)) @
            fst (snd (start_teacher_bot h (teacher_launch e) sw)) @
            fst (snd (start_student_bot h (student_launch e) sw)) @
            [Logged (if teacher_launch e = StaysUp \<and> student_launch e = StaysUp
                     then ''Both bots restarted successfully''
                     else ''Failed to restart one or both bots'')],
            Some (teacher_launch e = StaysUp \<and> student_launch e = StaysUp)))"
proof -
  obtain s w where sw: "sw = (s, w)" by (cases sw)
  obtain w1 tk where k: "kill_existing_bots h (kill1_raises e) (kill2_raises e) w = (w1, tk)"
    by (cases "kill_existing_bots h (kill1_raises e) (kill2_raises e) w")
  obtain x2 tt okt where t: "start_teacher_bot h (teacher_launch e)
      (s\<lparr>keeper.restart_count := keeper.restart_count s + 1\<rparr>, w1) = (x2, tt, okt)"
    by (metis prod_cases3)
  obtain x3 ts oks where u: "start_student_bot h (student_launch e) x2 = (x3, ts, oks)"
    by (metis prod_cases3)
  have tt: "(tt, okt) = snd (start_teacher_bot h (teacher_launch e) sw)"
    using t start_teacher_bot_result [of h "teacher_launch e"
        "(s\<lparr>keeper.restart_count := keeper.restart_count s + 1\<rparr>, w1)"]
      start_teacher_bot_result [of h "teacher_launch e" sw] by simp
  have ts: "(ts, oks) = snd (start_student_bot h (student_launch e) sw)"
    using u start_student_bot_result [of h "student_launch e" x2]
      start_student_bot_result [of h "student_launch e" sw] by simp
  have okt: "okt = (teacher_launch e = StaysUp)"
    using tt by (cases "teacher_launch e") (simp_all add: start_teacher_bot_result)
  have oks: "oks = (student_launch e = StaysUp)"
    using ts by (cases "student_launch e") (simp_all add: start_student_bot_result)
  from tt have tt': "fst (snd (start_teacher_bot h (teacher_launch e) sw)) = tt"
    by (metis fst_conv)
  from ts have ts': "fst (snd (start_student_bot h (student_launch e) sw)) = ts"
    by (metis fst_conv)
  show ?thesis
    unfolding tt' ts'
    by (simp add: sw restart_bots_def Let_def k t u okt oks)
qed

lemma monitor_iteration_trace:
  "snd (monitor_iteration h e sw) =
     (let w = procs_exit (snd sw) (exited e) in
      if check_raises e then [Logged ''Monitor error'', Slept 60]
      else if \<not> truthy (proc_alive w (keeper.teacher_process (fst sw))) \<or>
              \<not> truthy (proc_alive w (keeper.student_process (fst sw)))
           then [Logged ''One or both bots have died!'', Logged ''Teacher Bot'',
                 Logged ''Student Bot''] @
                fst (snd (restart_bots h (renv e) (fst sw, w))) @
                (case snd (snd (restart_bots h (renv e) (fst sw, w))) of
                   None \<Rightarrow> []
                 | Some ok \<Rightarrow>
                     (if \<not> ok
                      then [Logged ''Failed to restart, will retry in 30 seconds...'', Slept 30]
                      else []) @
                     [Slept 120])
           else [Logged ''Both bots healthy'', Slept 120])"
  by (cases sw) (simp add: monitor_iteration_def check_bots_health_def Let_def split: prod.splits)





lemma launched_like_supervisor:
  "os_name h = ''nt'' \<Longrightarrow> launched h script w (Some p) \<Longrightarrow>
   taskkill_matches ''python.exe'' (w ! p) = kill_target h (supervisor h script')"
  by (simp add: launched_def kill_target_def taskkill_matches_def supervisor_def)






section \<open>Sleep between a failed launch and the next attempt\<close>


lemma slept_before_launch_closed:
  "\<exists>t. slept_before_launch w (xs @ [Launching Teacher, Launching Student]) = Some t \<and>
       (\<forall>t'. slept_before_launch w (xs @ ys) = Some t' \<longrightarrow> t \<le> t')"
proof (induction xs)
  case Nil
  show ?case by (cases w) simp_all
next
  case (Cons a xs)
  then obtain t where t: "slept_before_launch w (xs @ [Launching Teacher, Launching Student]) = Some t"
    and le: "\<And>t'. slept_before_launch w (xs @ ys) = Some t' \<Longrightarrow> t \<le> t'"
    by blast
  show ?case
  proof (cases a)
    case (Slept n)
    with t le show ?thesis by auto
  next
    case (Logged m)
    with t le show ?thesis by auto
  next
    case (Restarting ws)
    with t le show ?thesis by auto
  next
    case (Launching w')
    with t le show ?thesis by auto
  next
    case (Launch w' ok)
    with t le show ?thesis by auto
  next
    case Ended
    with t le show ?thesis by auto
  qed
qed

lemma cooldown_respected_append:
  "cooldown_respected c (xs @ [Launching Teacher, Launching Student]) \<Longrightarrow>
   cooldown_respected c ys \<Longrightarrow> cooldown_respected c (xs @ ys)"
proof (induction xs)
  case Nil
  then show ?case by simp
next
  case (Cons a xs)
  show ?case
  proof (cases a)
    case (Launch w ok)
    from slept_before_launch_closed [of w xs ys]
    obtain t where t: "slept_before_launch w (xs @ [Launching Teacher, Launching Student]) = Some t"
      and le: "\<And>t'. slept_before_launch w (xs @ ys) = Some t' \<Longrightarrow> t \<le> t'"
      by blast
    from Cons.prems(1) Launch t have "ok \<or> c \<le> t" by simp
    then have "ok \<or> (case slept_before_launch w (xs @ ys) of
                       None \<Rightarrow> True | Some t' \<Rightarrow> c \<le> t')"
      using le by (auto split: option.splits dest: le)
    moreover from Cons.prems Launch have "cooldown_respected c (xs @ ys)"
      by (simp add: Cons.IH)
    ultimately show ?thesis using Launch by simp
  next
    case (Slept n)
    with Cons show ?thesis by simp
  next
    case (Logged m)
    with Cons show ?thesis by simp
  next
    case (Restarting ws)
    with Cons show ?thesis by simp
  next
    case (Launching w)
    with Cons show ?thesis by simp
  next
    case Ended
    with Cons show ?thesis by simp
  qed
qed

lemma cooldown_respected_prefix:
  "cooldown_respected c (xs @ [Launching Teacher, Launching Student]) \<Longrightarrow> cooldown_respected c xs"
  using cooldown_respected_append [of c xs "[]"] by simp

lemma cooldown_respected_mono:
  "cooldown_respected c tr \<Longrightarrow> c' \<le> c \<Longrightarrow> cooldown_respected c' tr"
proof (induction tr)
  case Nil
  show ?case by simp
next
  case (Cons a tr)
  then show ?case by (cases a) (auto split: option.splits)
qed

lemma kill_existing_bots_trace:
  "snd (kill_existing_bots h r1 r2 w) = [Logged ''Could not kill existing processes''] \<or>
   snd (kill_existing_bots h r1 r2 w) = [Ended] \<or>
   snd (kill_existing_bots h r1 r2 w) = [Slept 2, Logged ''Cleared any existing bot processes'']"
  by (simp add: kill_existing_bots_def)

lemma monitor_iteration_cooldown:
  "cooldown_respected 150
     (snd (monitor_iteration h e sw) @ [Launching Teacher, Launching Student])"
proof -
  let ?w = "procs_exit (snd sw) (exited e)"
  from kill_existing_bots_trace [of h "kill1_raises (renv e)" "kill2_raises (renv e)" ?w]
  show ?thesis
    by (cases "teacher_launch (renv e)"; cases "student_launch (renv e)")
       (auto simp: monitor_iteration_trace restart_bots_result Let_def ended_def
          start_teacher_bot_result start_student_bot_result)
qed

lemma monitor_bots_loop_cooldown:
  "cooldown_respected 150 (snd (monitor_bots_loop h es sw))"
proof (induction es arbitrary: sw)
  case Nil
  show ?case by simp
next
  case (Cons e es)
  show ?case
    using cooldown_respected_append [OF monitor_iteration_cooldown [of h e sw]
        Cons.IH [of "fst (monitor_iteration h e sw)"]]
      cooldown_respected_prefix [OF monitor_iteration_cooldown [of h e sw]]
    by (simp add: monitor_bots_loop_Cons del: monitor_bots_loop.simps)
qed

lemma cloud_start_teacher_bot_result:
  "snd (cloud_start_teacher_bot h l sw) =
     (case l of
        PopenRaises \<Rightarrow> ([Logged ''Starting Teacher Bot...'', Launching Teacher,
                         Launch Teacher False, Logged ''Error starting Teacher Bot''], False)
      | ExitsEarly \<Rightarrow> ([Logged ''Starting Teacher Bot...'', Launching Teacher, Slept 3,
                        Launch Teacher False, Logged ''Teacher Bot failed to start''], False)
      | StaysUp \<Rightarrow> ([Logged ''Starting Teacher Bot...'', Launching Teacher, Slept 3,
                     Launch Teacher True, Logged ''Teacher Bot started successfully''], True))"
  by (cases sw; cases l; simp add: cloud_start_teacher_bot_def popen_def)

lemma cloud_start_student_bot_result:
  "snd (cloud_start_student_bot h l sw) =
     (case l of
        PopenRaises \<Rightarrow> ([Logged ''Starting Student Bot...'', Launching Student,
                         Launch Student False, Logged ''Error starting Student Bot''], False)
      | ExitsEarly \<Rightarrow> ([Logged ''Starting Student Bot...'', Launching Student, Slept 3,
                        Launch Student False, Logged ''Student Bot failed to start''], False)
      | StaysUp \<Rightarrow> ([Logged ''Starting Student Bot...'', Launching Student, Slept 3,
                     Launch Student True, Logged ''Student Bot started successfully''], True))"
  by (cases sw; cases l; simp add: cloud_start_student_bot_def popen_def)

lemma cloud_restart_bots_result:
  "snd (cloud_restart_bots h e sw) =
     (if ended (snd (cloud_kill_existing_bots h (kill1_raises e) (kill2_raises e) (snd sw)))
      then ([Restarting [Teacher, Student], Logged ''Restarting bots''] @
            snd (cloud_kill_existing_bots h (kill1_raises e) (kill2_raises e) (snd sw)), None)
      else ([Restarting [Teacher, Student], Logged ''Restarting bots''] @
            snd (cloud_kill_existing_bots h (kill1_raises e) (kill2_raises e) (snd sw)) @
            fst (snd (cloud_start_teacher_bot h (teacher_launch e) sw)) @
            fst (snd (cloud_start_student_bot h (student_launch e) sw)) @
            [Logged (if teacher_launch e = StaysUp \<and> student_launch e = StaysUp
                     then ''Both bots restarted successfully''
                     else ''Failed to restart one or both bots'')],
            Some (teacher_launch e = StaysUp \<and> student_launch e = StaysUp)))"
proof -
  obtain s w where sw: "sw = (s, w)" by (cases sw)
  obtain w1 tk where k: "cloud_kill_existing_bots h (kill1_raises e) (kill2_raises e) w = (w1, tk)"
    by (cases "cloud_kill_existing_bots h (kill1_raises e) (kill2_raises e) w")
  obtain x2 tt okt where t: "cloud_start_teacher_bot h (teacher_launch e)
      (s\<lparr>cloud.restart_count := cloud.restart_count s + 1\<rparr>, w1) = (x2, tt, okt)"
    by (metis prod_cases3)
  obtain x3 ts oks where u: "cloud_start_student_bot h (student_launch e) x2 = (x3, ts, oks)"
    by (metis prod_cases3)
  have tt: "(tt, okt) = snd (cloud_start_teacher_bot h (teacher_launch e) sw)"
    using t cloud_start_teacher_bot_result [of h "teacher_launch e"
        "(s\<lparr>cloud.restart_count := cloud.restart_count s + 1\<rparr>, w1)"]
      cloud_start_teacher_bot_result [of h "teacher_launch e" sw] by simp
  have ts: "(ts, oks) = snd (cloud_start_student_bot h (student_launch e) sw)"
    using u cloud_start_student_bot_result [of h "student_launch e" x2]
      cloud_start_student_bot_result [of h "student_launch e" sw] by simp
  have okt: "okt = (teacher_launch e = StaysUp)"
    using tt by (cases "teacher_launch e") (simp_all add: cloud_start_teacher_bot_result)
  have oks: "oks = (student_launch e = StaysUp)"
    using ts by (cases "student_launch e") (simp_all add: cloud_start_student_bot_result)
  from tt have tt': "fst (snd (cloud_start_teacher_bot h (teacher_launch e) sw)) = tt"
    by (metis fst_conv)
  from ts have ts': "fst (snd (cloud_start_student_bot h (student_launch e) sw)) = ts"
    by (metis fst_conv)
  show ?thesis
    unfolding tt' ts'
    by (simp add: sw cloud_restart_bots_def Let_def k t u okt oks)
qed

lemma cloud_monitor_iteration_trace:
  "snd (cloud_monitor_iteration h e sw) =
     (let w = procs_exit (snd sw) (exited e) in
      if check_raises e then [Logged ''Error in monitor loop'', Slept 60]
      else if \<not> truthy (proc_alive w (cloud.teacher_process (fst sw))) \<or>
              \<not> truthy (proc_alive w (cloud.student_process (fst sw)))
           then [Logged ''One or both bots have died!'', Logged ''Teacher Bot'',
                 Logged ''Student Bot''] @
                fst (snd (cloud_restart_bots h (renv e) (fst sw, w))) @
                (case snd (snd (cloud_restart_bots h (renv e) (fst sw, w))) of
                   None \<Rightarrow> []
                 | Some ok \<Rightarrow>
                     (if \<not> ok
                      then [Logged ''Failed to restart bots, will retry in 30 seconds...'', Slept 30]
                      else []) @
                     [Slept 120])
           else [Logged ''Both bots healthy'', Slept 120])"
  by (cases sw)
     (simp add: cloud_monitor_iteration_def check_bot_health_def Let_def split: prod.splits)

lemma cloud_kill_existing_bots_trace:
  "snd (cloud_kill_existing_bots h r1 r2 w) = [Logged ''Could not kill existing processes''] \<or>
   snd (cloud_kill_existing_bots h r1 r2 w) = [Ended] \<or>
   snd (cloud_kill_existing_bots h r1 r2 w) = [Slept 2]"
  by (simp add: cloud_kill_existing_bots_def)

lemma cloud_monitor_iteration_cooldown:
  "cooldown_respected 150
     (snd (cloud_monitor_iteration h e sw) @ [Launching Teacher, Launching Student])"
proof -
  let ?w = "procs_exit (snd sw) (exited e)"
  from cloud_kill_existing_bots_trace [of h "kill1_raises (renv e)" "kill2_raises (renv e)" ?w]
  show ?thesis
    by (cases "teacher_launch (renv e)"; cases "student_launch (renv e)")
       (auto simp: cloud_monitor_iteration_trace cloud_restart_bots_result Let_def ended_def
          cloud_start_teacher_bot_result cloud_start_student_bot_result)
qed

lemma monitor_bots_cooldown:
  "cooldown_respected 150 (snd (monitor_bots h es sw))"
proof (induction es arbitrary: sw)
  case Nil
  show ?case by simp
next
  case (Cons e es)
  show ?case
    using cooldown_respected_append [OF cloud_monitor_iteration_cooldown [of h e sw]
        Cons.IH [of "fst (cloud_monitor_iteration h e sw)"]]
      cooldown_respected_prefix [OF cloud_monitor_iteration_cooldown [of h e sw]]
    by (simp add: monitor_bots_Cons del: monitor_bots.simps)
qed

lemma ibot_monitor_bots_loop_Cons:
  "ibot_monitor_bots_loop (e # es) x =
     (if integrated.running (fst x) then
        (fst (ibot_monitor_bots_loop es (fst (ibot_monitor_iteration e x))),
         snd (ibot_monitor_iteration e x) @
         snd (ibot_monitor_bots_loop es (fst (ibot_monitor_iteration e x))))
      else (x, []))"
  by (simp split: prod.splits)

lemma ibot_monitor_iteration_cooldown:
  "cooldown_respected 120
     (snd (ibot_monitor_iteration e x) @ [Launching Teacher, Launching Student])"
proof -
  obtain s th where f: "student_fate_step (student_fate e) (teacher_fate_step (teacher_fate e) x)
      = (s, th)"
    by (cases "student_fate_step (student_fate e) (teacher_fate_step (teacher_fate e) x)")
  show ?thesis
    by (cases "teacher_relaunch e"; cases "student_relaunch e")
       (simp_all add: ibot_monitor_iteration_def f Let_def restart_teacher_bot_def
          restart_student_bot_def start_teacher_bot_thread_def start_student_bot_thread_def)
qed

lemma ibot_monitor_bots_loop_cooldown:
  "cooldown_respected 120 (snd (ibot_monitor_bots_loop es x))"
proof (induction es arbitrary: x)
  case Nil
  show ?case by simp
next
  case (Cons e es)
  show ?case
    using cooldown_respected_append [OF ibot_monitor_iteration_cooldown [of e x]
        Cons.IH [of "fst (ibot_monitor_iteration e x)"]]
    by (simp add: ibot_monitor_bots_loop_Cons del: ibot_monitor_bots_loop.simps)
qed

text \<open>
  Claim C5. In each of the three supervisors, whatever the environment does and however
  many passes the monitor loop makes, a failed launch of a worker is followed by at least
  30 seconds of sleep before the loop begins its next launch attempt of that worker. In
  keep_bot_alive_24x7.py and run_cloud_24_7.py the loop sleeps the cooldown of 30 seconds
  and then the poll interval of 120 seconds, 150 seconds in all; run_bots_24x7_integrated.py
  has no separate cooldown and sleeps its poll interval of 120 seconds. The failed launch
  is the event \<open>Launch w False\<close> of the trace, the next attempt the next event \<open>Launching w\<close>,
  and the time between them the sum of the \<^verbatim>\<open>time.sleep\<close> calls of the loop; the launch of the
  other worker in the same restart is not a retry and follows at once in all three.
\<close>

theorem cooldown_after_failed_launch:
  "(cooldown_respected 30 (snd (monitor_bots_loop h es sw)) \<and>
    cooldown_respected 150 (snd (monitor_bots_loop h es sw))) \<and>
   (cooldown_respected 30 (snd (monitor_bots h es cw)) \<and>
    cooldown_respected 150 (snd (monitor_bots h es cw))) \<and>
   (cooldown_respected 30 (snd (ibot_monitor_bots_loop ies x)) \<and>
    cooldown_respected 120 (snd (ibot_monitor_bots_loop ies x)))"
  using cooldown_respected_mono [OF monitor_bots_loop_cooldown [of h es sw], of 30]
    cooldown_respected_mono [OF monitor_bots_cooldown [of h es cw], of 30]
    cooldown_respected_mono [OF ibot_monitor_bots_loop_cooldown [of ies x], of 30]
    monitor_bots_loop_cooldown [of h es sw] monitor_bots_cooldown [of h es cw]
    ibot_monitor_bots_loop_cooldown [of ies x]
  by simp

theorem cooldown_after_failed_launch_witness:
  "(snd (monitor_bots_loop \<lparr>os_name = ''posix'', sys_executable = ''python3''\<rparr>
       [\<lparr>exited = [], check_raises = False,
        renv = \<lparr>kill1_raises = False, kill2_raises = False,
                teacher_launch = ExitsEarly, student_launch = StaysUp\<rparr>\<rparr>,
        \<lparr>exited = [], check_raises = False,
        renv = \<lparr>kill1_raises = False, kill2_raises = False,
                teacher_launch = StaysUp, student_launch = StaysUp\<rparr>\<rparr>]
       (keeper_init 0 0 8080, []))) =
     [Logged ''One or both bots have died!'', Logged ''Teacher Bot'',
      Logged ''Student Bot'', Restarting [Teacher, Student],
      Logged ''Restarting bots'', Slept 2,
      Logged ''Cleared any existing bot processes'',
      Logged ''Starting Teacher Bot...'', Launching Teacher, Slept 5,
      Launch Teacher False, Logged ''Teacher Bot failed to start'',
      Logged ''Starting Student Bot...'', Launching Student, Slept 5,
      Launch Student True, Logged ''Student Bot started successfully'',
      Logged ''Failed to restart one or both bots'',
      Logged ''Failed to restart, will retry in 30 seconds...'', Slept 30,
      Slept 120, Logged ''One or both bots have died!'', Logged ''Teacher Bot'',
      Logged ''Student Bot'', Restarting [Teacher, Student],
      Logged ''Restarting bots'', Slept 2,
      Logged ''Cleared any existing bot processes'',
      Logged ''Starting Teacher Bot...'', Launching Teacher, Slept 5,
      Launch Teacher True, Logged ''Teacher Bot started successfully'',
      Logged ''Starting Student Bot...'', Launching Student, Slept 5,
      Launch Student True, Logged ''Student Bot started successfully'',
      Logged ''Both bots restarted successfully'', Slept 120] \<and>
   cooldown_respected 30 (snd (monitor_bots_loop \<lparr>os_name = ''posix'', sys_executable = ''python3''\<rparr>
       [\<lparr>exited = [], check_raises = False,
        renv = \<lparr>kill1_raises = False, kill2_raises = False,
                teacher_launch = ExitsEarly, student_launch = StaysUp\<rparr>\<rparr>,
        \<lparr>exited = [], check_raises = False,
        renv = \<lparr>kill1_raises = False, kill2_raises = False,
                teacher_launch = StaysUp, student_launch = StaysUp\<rparr>\<rparr>]
       (keeper_init 0 0 8080, []))) \<and>
   (snd (ibot_monitor_bots_loop
     [\<lparr>teacher_fate = Returned, student_fate = Unchanged, is_alive_raises = False,
       teacher_relaunch = PollingReturns, student_relaunch = Polling\<rparr>,
      \<lparr>teacher_fate = Unchanged, student_fate = Unchanged, is_alive_raises = False,
       teacher_relaunch = Polling, student_relaunch = Polling\<rparr>]
     (fst (ibot_start Polling Polling (ibot_init 0 0 8080, []))))) =
     [Logged ''Teacher Bot thread died!'', Restarting [Teacher],
      Logged ''Restarting Teacher Bot...'', Launching Teacher,
      Logged ''Starting Teacher Bot...'',
      Logged ''Teacher Bot started successfully'', Slept 3,
      Launch Teacher False, Logged ''Both bots healthy'', Slept 120,
      Logged ''Teacher Bot thread died!'', Restarting [Teacher],
      Logged ''Restarting Teacher Bot...'', Launching Teacher,
      Logged ''Starting Teacher Bot...'',
      Logged ''Teacher Bot started successfully'', Slept 3, Launch Teacher True,
      Logged ''Both bots healthy'', Slept 120] \<and>
   cooldown_respected 30 (snd (ibot_monitor_bots_loop
     [\<lparr>teacher_fate = Returned, student_fate = Unchanged, is_alive_raises = False,
       teacher_relaunch = PollingReturns, student_relaunch = Polling\<rparr>,
      \<lparr>teacher_fate = Unchanged, student_fate = Unchanged, is_alive_raises = False,
       teacher_relaunch = Polling, student_relaunch = Polling\<rparr>]
     (fst (ibot_start Polling Polling (ibot_init 0 0 8080, [])))))"
  using cooldown_after_failed_launch [of "\<lparr>os_name = ''posix'', sys_executable = ''python3''\<rparr>"
       "[\<lparr>exited = [], check_raises = False,
        renv = \<lparr>kill1_raises = False, kill2_raises = False,
                teacher_launch = ExitsEarly, student_launch = StaysUp\<rparr>\<rparr>,
        \<lparr>exited = [], check_raises = False,
        renv = \<lparr>kill1_raises = False, kill2_raises = False,
                teacher_launch = StaysUp, student_launch = StaysUp\<rparr>\<rparr>]"
       "(keeper_init 0 0 8080, [])" "(cloud_init 0, [])"
       "[\<lparr>teacher_fate = Returned, student_fate = Unchanged, is_alive_raises = False,
       teacher_relaunch = PollingReturns, student_relaunch = Polling\<rparr>,
      \<lparr>teacher_fate = Unchanged, student_fate = Unchanged, is_alive_raises = False,
       teacher_relaunch = Polling, student_relaunch = Polling\<rparr>]"
       "(fst (ibot_start Polling Polling (ibot_init 0 0 8080, [])))"]
  by (simp add: monitor_iteration_def restart_bots_def check_bots_health_def
      kill_existing_bots_def start_teacher_bot_def start_student_bot_def popen_def pkill_f_def
      pkill_matches_def command_line_def supervisor_def ended_def
      procs_exit_def proc_exit_def proc_alive_def poll_is_None_def keeper_init_def
      ibot_monitor_iteration_def ibot_start_def ibot_init_def
      start_teacher_bot_thread_def start_student_bot_thread_def restart_teacher_bot_def
      restart_student_bot_def teacher_fate_step_def student_fate_step_def thread_alive_def
      Let_def)

end
